theory Spec2Isabelle
  imports Main
begin

section \<open>Python values\<close>

subsection \<open>Characters and strings\<close>

text \<open>
  A Python \<open>str\<close> is modelled as a \<^typ>\<open>string\<close>: a \<^typ>\<open>char\<close> stands for the code
  point of the same number, so the embedding covers the code points 0 to 255. On that
  range \<open>str.isspace\<close> holds for 9..13, 28..32, 133 and 160, \<open>str.isdigit\<close> holds for the
  ten decimal digits and for the superscripts 178, 179 and 185, and \<open>str.lower\<close> moves
  A..Z and 192..222 (but the multiplication sign 215) up by 32.
\<close>

definition code_point :: "char \<Rightarrow> nat" where
  "code_point c = of_char c"

definition py_isspace :: "char \<Rightarrow> bool" where
  "py_isspace c =
     (let n = code_point c
      in (9 \<le> n \<and> n \<le> 13) \<or> (28 \<le> n \<and> n \<le> 32) \<or> n = 133 \<or> n = 160)"

definition is_decimal :: "char \<Rightarrow> bool" where
  "is_decimal c = (48 \<le> code_point c \<and> code_point c \<le> 57)"

definition py_isdigit :: "char \<Rightarrow> bool" where
  "py_isdigit c =
     (let n = code_point c in is_decimal c \<or> n = 178 \<or> n = 179 \<or> n = 185)"

definition py_lower :: "char \<Rightarrow> char" where
  "py_lower c =
     (let n = code_point c
      in if (65 \<le> n \<and> n \<le> 90) \<or> (192 \<le> n \<and> n \<le> 222 \<and> n \<noteq> 215)
         then char_of (n + 32) else c)"

text \<open>\<open>s.strip()\<close>, \<open>s.lstrip("@")\<close>, \<open>s.lower()\<close> and \<open>s.isdigit()\<close>.\<close>

definition strip :: "string \<Rightarrow> string" where
  "strip s = rev (dropWhile py_isspace (rev (dropWhile py_isspace s)))"

definition lstrip_at :: "string \<Rightarrow> string" where
  "lstrip_at s = dropWhile (\<lambda>c. c = CHR ''@'') s"

definition lower :: "string \<Rightarrow> string" where
  "lower s = map py_lower s"

definition isdigit :: "string \<Rightarrow> bool" where
  "isdigit s = (s \<noteq> [] \<and> list_all py_isdigit s)"

text \<open>
  \<open>str(n)\<close> of an integer, and \<open>int(s)\<close> of a string that passed \<open>isdigit\<close>: of the
  characters \<open>isdigit\<close> lets through, \<open>int\<close> reads the ten decimal digits and raises
  \<open>ValueError\<close> (here \<open>None\<close>) on a superscript.
\<close>

definition digit_char :: "nat \<Rightarrow> char" where
  "digit_char d = char_of (48 + d)"

fun str_nat :: "nat \<Rightarrow> string" where
  "str_nat n = (if n < 10 then [digit_char n] else str_nat (n div 10) @ [digit_char (n mod 10)])"

declare str_nat.simps [simp del]

definition str_int :: "int \<Rightarrow> string" where
  "str_int i = (if i < 0 then CHR ''-'' # str_nat (nat (- i)) else str_nat (nat i))"

definition digit_val :: "char \<Rightarrow> int" where
  "digit_val c = int (code_point c) - 48"

definition decimal_value :: "string \<Rightarrow> int" where
  "decimal_value s = foldl (\<lambda>a c. 10 * a + digit_val c) 0 s"

definition int_of_digits :: "string \<Rightarrow> int option" where
  "int_of_digits s =
     (if s \<noteq> [] \<and> list_all is_decimal s then Some (decimal_value s) else None)"

subsection \<open>JSON values\<close>

text \<open>
  What \<open>json.load\<close> and \<open>Response.json\<close> return: \<open>None\<close>, a bool, an int, a str, a list
  or a dict with str keys. A dict keeps its insertion order, so it is an association
  list; in a dict that Python built the keys are distinct. Numbers with a fraction or
  an exponent (Python floats) are outside the embedding.
\<close>

datatype json =
    JNull
  | JBool bool
  | JInt int
  | JStr string
  | JArr "json list"
  | JObj "(string \<times> json) list"

datatype py_error = AttributeError | TypeError | KeyError | IndexError

text \<open>Truth value of a value in a condition (\<open>if v\<close>, \<open>not v\<close>).\<close>

fun truthy :: "json \<Rightarrow> bool" where
  "truthy JNull = False"
| "truthy (JBool b) = b"
| "truthy (JInt i) = (i \<noteq> 0)"
| "truthy (JStr s) = (s \<noteq> [])"
| "truthy (JArr xs) = (xs \<noteq> [])"
| "truthy (JObj kvs) = (kvs \<noteq> [])"

text \<open>\<open>v == n\<close> for an int literal \<open>n\<close>: a bool compares as 0 or 1.\<close>

fun py_eq_int :: "json \<Rightarrow> int \<Rightarrow> bool" where
  "py_eq_int (JInt i) n = (i = n)"
| "py_eq_int (JBool b) n = ((if b then 1 else 0) = n)"
| "py_eq_int _ n = False"

text \<open>\<open>d.get(k, dflt)\<close>: only a dict has the method.\<close>

fun py_get :: "json \<Rightarrow> string \<Rightarrow> json \<Rightarrow> py_error + json" where
  "py_get (JObj kvs) k dflt = Inr (case map_of kvs k of None \<Rightarrow> dflt | Some v \<Rightarrow> v)"
| "py_get _ k dflt = Inl AttributeError"

text \<open>\<open>d[k]\<close> with a str key \<open>k\<close>.\<close>

fun py_getitem :: "json \<Rightarrow> string \<Rightarrow> py_error + json" where
  "py_getitem (JObj kvs) k = (case map_of kvs k of None \<Rightarrow> Inl KeyError | Some v \<Rightarrow> Inr v)"
| "py_getitem _ k = Inl TypeError"

text \<open>\<open>xs[0]\<close>.\<close>

fun py_first :: "json \<Rightarrow> py_error + json" where
  "py_first (JArr (x # xs)) = Inr x"
| "py_first (JArr []) = Inl IndexError"
| "py_first (JStr (c # cs)) = Inr (JStr [c])"
| "py_first (JStr []) = Inl IndexError"
| "py_first (JObj kvs) = Inl KeyError"
| "py_first _ = Inl TypeError"

text \<open>\<open>d[k] = v\<close> and \<open>del d[k]\<close> on the association list of a dict.\<close>

fun dict_set :: "string \<Rightarrow> json \<Rightarrow> (string \<times> json) list \<Rightarrow> (string \<times> json) list" where
  "dict_set k v [] = [(k, v)]"
| "dict_set k v (p # ps) = (if fst p = k then (k, v) # ps else p # dict_set k v ps)"

definition dict_del :: "string \<Rightarrow> (string \<times> json) list \<Rightarrow> (string \<times> json) list" where
  "dict_del k ps = filter (\<lambda>p. fst p \<noteq> k) ps"

section \<open>The world of one command\<close>

text \<open>
  \<open>data.json\<close> is absent, or there and not readable as JSON (\<open>open\<close> or \<open>json.load\<close>
  raises), or holds a JSON value. The two endpoints of the Steam Web API are called with
  the key and one argument. A world is the file together with the requests sent so far.
\<close>

datatype disk = Absent | Unreadable | Holds json

datatype request =
    ResolveVanityURL string string
  | GetPlayerSummaries string json

record world =
  data_file :: disk
  sent :: "request list"

text \<open>
  What a command reads from outside: the decoded body of the answer to a request
  (\<open>None\<close> when \<open>requests.get\<close>, \<open>raise_for_status\<close> or \<open>r.json()\<close> raises), the clock
  \<open>int(datetime.now(timezone.utc).timestamp())\<close>, and Python's \<open>str\<close> of a list or a
  dict, which is not modelled further.
\<close>

record environment =
  http_get :: "request \<Rightarrow> json option"
  now :: int
  str_container :: "json \<Rightarrow> string"

fun py_str :: "environment \<Rightarrow> json \<Rightarrow> string" where
  "py_str env (JStr s) = s"
| "py_str env (JInt i) = str_int i"
| "py_str env (JBool b) = (if b then ''True'' else ''False'')"
| "py_str env JNull = ''None''"
| "py_str env v = str_container env v"

subsection \<open>Data access (lines 42 to 57)\<close>

text \<open>
  \<open>_load_store\<close> returns the empty dict for a file that is absent or unreadable and has
  no way to raise. \<open>_save_store\<close> dumps the store to a temporary file and renames it
  over \<open>data.json\<close>; the write is taken to succeed, and \<open>json.load\<close> to give back what
  \<open>json.dump\<close> wrote, so that the file then holds the store.
\<close>

definition load_store :: "world \<Rightarrow> json" where
  "load_store w = (case data_file w of Absent \<Rightarrow> JObj [] | Unreadable \<Rightarrow> JObj [] | Holds j \<Rightarrow> j)"

definition save_store :: "json \<Rightarrow> world \<Rightarrow> world" where
  "save_store store w = w\<lparr>data_file := Holds store\<rparr>"

section \<open>SteamService (lines 72 to 139)\<close>

record steam_service =
  api_key :: string

definition SteamService :: "string \<Rightarrow> steam_service" where
  "SteamService key = \<lparr>api_key = strip key\<rparr>"

text \<open>Lines 86 to 88: the steamid in the body of a vanity answer.\<close>

definition vanity_answer :: "environment \<Rightarrow> json \<Rightarrow> string option" where
  "vanity_answer env body =
     (case py_get body ''response'' (JObj []) of
        Inl e \<Rightarrow> None
      | Inr resp \<Rightarrow>
          (case py_get resp ''success'' JNull of
             Inl e \<Rightarrow> None
           | Inr ok \<Rightarrow>
               if \<not> py_eq_int ok 1 then None
               else (case py_get resp ''steamid'' JNull of
                       Inl e \<Rightarrow> None
                     | Inr sid \<Rightarrow> if truthy sid then Some (py_str env sid) else None)))"

definition resolve_vanity ::
  "environment \<Rightarrow> steam_service \<Rightarrow> string \<Rightarrow> world \<Rightarrow> string option \<times> world" where
  "resolve_vanity env svc vanity w =
     (if api_key svc = [] then (None, w)
      else
        let rq = ResolveVanityURL (api_key svc) vanity;
            w' = w\<lparr>sent := sent w @ [rq]\<rparr>
        in (case http_get env rq of
              None \<Rightarrow> (None, w')
            | Some body \<Rightarrow> (vanity_answer env body, w')))"

text \<open>Lines 103 to 104: the first player in the body of a summaries answer.\<close>

definition first_player :: "json \<Rightarrow> json" where
  "first_player body =
     (case py_get body ''response'' (JObj []) of
        Inl e \<Rightarrow> JObj []
      | Inr resp \<Rightarrow>
          (case py_get resp ''players'' (JArr []) of
             Inl e \<Rightarrow> JObj []
           | Inr players \<Rightarrow>
               if truthy players
               then (case py_first players of Inl e \<Rightarrow> JObj [] | Inr p \<Rightarrow> p)
               else JObj []))"

definition get_summary ::
  "environment \<Rightarrow> steam_service \<Rightarrow> json \<Rightarrow> world \<Rightarrow> json \<times> world" where
  "get_summary env svc steamid64 w =
     (if api_key svc = [] then (JObj [], w)
      else
        let rq = GetPlayerSummaries (api_key svc) steamid64;
            w' = w\<lparr>sent := sent w @ [rq]\<rparr>
        in (case http_get env rq of
              None \<Rightarrow> (JObj [], w')
            | Some body \<Rightarrow> (first_player body, w')))"

definition norm_alias :: "string \<Rightarrow> string" where
  "norm_alias s = lower (lstrip_at (strip s))"

definition norm_identifier ::
  "environment \<Rightarrow> steam_service \<Rightarrow> string \<Rightarrow> world \<Rightarrow> string option \<times> world" where
  "norm_identifier env svc s0 w =
     (let s = lstrip_at (strip s0)
      in if s = [] then (None, w)
         else if isdigit s then
           (if 16 \<le> length s then (Some s, w)
            else (case int_of_digits s of
                    None \<Rightarrow> (None, w)
                  | Some sid32 \<Rightarrow> (Some (str_int (sid32 + 76561197960265728)), w)))
         else resolve_vanity env svc s w)"

section \<open>SteamCommand (lines 143 to 296)\<close>

text \<open>
  Every subcommand takes the chat key from \<open>_get_chat_key(self.context)\<close> (lines 59 to
  68), which returns a str for whatever context the host passes and never raises; below
  it is the parameter \<open>chat\<close>. The lock of lines 38, 43 and 53 orders the file accesses
  of concurrent commands; here one command runs at a time.
\<close>

subsection \<open>Python statements on JSON values\<close>

text \<open>Sequencing of steps that may raise: the first exception ends the run.\<close>

definition and_then :: "py_error + 'a \<Rightarrow> ('a \<Rightarrow> py_error + 'b) \<Rightarrow> py_error + 'b" where
  "and_then r f = (case r of Inl e \<Rightarrow> Inl e | Inr v \<Rightarrow> f v)"

text \<open>
  \<open>d.get(k, <literal>)\<close> where the literal is one of the fixed placeholder names of
  lines 254 and 275: \<open>None\<close> stands for the placeholder.
\<close>

fun py_get_opt :: "json \<Rightarrow> string \<Rightarrow> py_error + json option" where
  "py_get_opt (JObj kvs) k = Inr (map_of kvs k)"
| "py_get_opt _ k = Inl AttributeError"

text \<open>
  \<open>d[k] = v\<close>, \<open>k in d\<close> and \<open>del d[k]\<close> with a str \<open>k\<close>. On a list, \<open>in\<close> compares the
  elements with \<open>k\<close>; on a str it looks for \<open>k\<close> as a substring; neither takes a str as
  an index.
\<close>

fun py_setitem :: "json \<Rightarrow> string \<Rightarrow> json \<Rightarrow> py_error + json" where
  "py_setitem (JObj kvs) k v = Inr (JObj (dict_set k v kvs))"
| "py_setitem _ k v = Inl TypeError"

fun is_prefix :: "string \<Rightarrow> string \<Rightarrow> bool" where
  "is_prefix [] ys = True"
| "is_prefix (x # xs) [] = False"
| "is_prefix (x # xs) (y # ys) = (x = y \<and> is_prefix xs ys)"

fun is_substring :: "string \<Rightarrow> string \<Rightarrow> bool" where
  "is_substring xs [] = (xs = [])"
| "is_substring xs (y # ys) = (is_prefix xs (y # ys) \<or> is_substring xs ys)"

fun py_contains :: "json \<Rightarrow> string \<Rightarrow> py_error + bool" where
  "py_contains (JObj kvs) k = Inr (map_of kvs k \<noteq> None)"
| "py_contains (JArr xs) k = Inr (JStr k \<in> set xs)"
| "py_contains (JStr s) k = Inr (is_substring k s)"
| "py_contains _ k = Inl TypeError"

fun py_delitem :: "json \<Rightarrow> string \<Rightarrow> py_error + json" where
  "py_delitem (JObj kvs) k =
     (if map_of kvs k = None then Inl KeyError else Inr (JObj (dict_del k kvs)))"
| "py_delitem _ k = Inl TypeError"

text \<open>
  \<open>store.get(chat, {}).get("aliases", {})\<close>, which is also the value of
  \<open>store.setdefault(chat, {}).setdefault("aliases", {})\<close>.
\<close>

definition chat_aliases :: "json \<Rightarrow> string \<Rightarrow> py_error + json" where
  "chat_aliases store chat =
     and_then (py_get store chat (JObj [])) (\<lambda>scope. py_get scope ''aliases'' (JObj []))"

text \<open>
  The aliases dict of a chat is changed in place. The store after the change holds
  the new dict under the key \<open>aliases\<close> of the chat's scope, where \<open>setdefault\<close> has
  put a scope that was missing.
\<close>

definition with_aliases :: "json \<Rightarrow> string \<Rightarrow> json \<Rightarrow> json" where
  "with_aliases store chat aliases =
     (case store of
        JObj chats \<Rightarrow>
          (case map_of chats chat of
             None \<Rightarrow> JObj (dict_set chat (JObj [(''aliases'', aliases)]) chats)
           | Some (JObj fs) \<Rightarrow>
               JObj (dict_set chat (JObj (dict_set ''aliases'' aliases fs)) chats)
           | Some other \<Rightarrow> store)
      | other \<Rightarrow> store)"

subsection \<open>Replies\<close>

text \<open>
  The labels of the table \<open>PERSONA_STATE\<close> (lines 27 to 35), in the order of their
  codes: offline, online, busy, away, snooze, looking to trade, looking to play.
\<close>

datatype persona_label = Offline | Online | Busy | Away | Snooze | LookingToTrade | LookingToPlay

definition PERSONA_STATE :: "(int \<times> persona_label) list" where
  "PERSONA_STATE =
     [(0, Offline), (1, Online), (2, Busy), (3, Away), (4, Snooze),
      (5, LookingToTrade), (6, LookingToPlay)]"

datatype state_text = Label persona_label | UnknownState json

text \<open>
  A reply is a list of lines, joined by newlines in the source. Each constructor is one
  message template of the source with the values it interpolates:
  \<^item> \<open>NeedApiKey\<close>: line 197, the request to configure \<open>steam.api_key\<close>;
  \<^item> \<open>CannotResolve x\<close>: lines 201 and 267, "cannot be parsed as a SteamID: x";
  \<^item> \<open>BindFailed sid\<close>: line 205; \<open>Bound alias name sid\<close>: line 217;
  \<^item> \<open>AliasNotFound alias\<close>: lines 225 and 247; \<open>Unbound alias\<close>: line 228;
  \<^item> \<open>NoBindings\<close>: line 235 (with its hint); \<open>ListHeader\<close>, \<open>ListEntry\<close>: lines 236, 238;
  \<^item> \<open>WhoisNoDetail alias sid\<close>: line 251; \<open>WhoisHeader alias name sid\<close>: line 254;
  \<^item> \<open>ProfileUrl url\<close>: lines 256, 281, 293; \<open>WhoisPrivacy\<close>: line 253;
  \<^item> \<open>FetchFailed sid\<close>: line 271; \<open>Player name sid\<close>: lines 279, 287;
  \<^item> \<open>StateUndetermined\<close>: line 279; \<open>State text\<close>: line 287;
  \<^item> \<open>CurrentGame game\<close>: line 289; \<open>LastLogoff ts\<close>: line 291, the text \<open>fmt_ts(ts)\<close>;
  \<^item> \<open>StatusPrivacy\<close>: line 274.
\<close>

datatype line =
    NeedApiKey
  | CannotResolve string
  | BindFailed string
  | Bound string json string
  | AliasNotFound string
  | Unbound string
  | NoBindings
  | ListHeader
  | ListEntry string json json
  | WhoisNoDetail string json
  | WhoisHeader string "json option" json
  | ProfileUrl json
  | WhoisPrivacy
  | FetchFailed json
  | Player "json option" json
  | StateUndetermined
  | State state_text
  | CurrentGame json
  | LastLogoff json
  | StatusPrivacy

type_synonym outcome = "(py_error + line list) \<times> world"

subsection \<open>do_link (lines 195 to 217)\<close>

text \<open>Lines 210 to 215: the record of a binding.\<close>

definition new_record :: "string \<Rightarrow> json \<Rightarrow> json \<Rightarrow> int \<Rightarrow> json" where
  "new_record steamid profileurl personaname created =
     JObj [(''steamid'', JStr steamid), (''profileurl'', profileurl),
           (''personaname'', personaname), (''created_at'', JInt created)]"

text \<open>Lines 209 to 215: the store with the new record under the alias.\<close>

definition link_update ::
  "json \<Rightarrow> string \<Rightarrow> string \<Rightarrow> string \<Rightarrow> json \<Rightarrow> int \<Rightarrow> py_error + json" where
  "link_update store chat alias steamid info created =
     and_then (chat_aliases store chat) (\<lambda>aliases.
     and_then (py_get info ''profileurl'' (JStr [])) (\<lambda>profileurl.
     and_then (py_get info ''personaname'' (JStr [])) (\<lambda>personaname.
     and_then (py_setitem aliases alias (new_record steamid profileurl personaname created))
       (\<lambda>aliases'. Inr (with_aliases store chat aliases')))))"

definition do_link ::
  "environment \<Rightarrow> steam_service \<Rightarrow> string \<Rightarrow> string \<Rightarrow> string \<Rightarrow> world \<Rightarrow> outcome" where
  "do_link env svc chat alias0 ident w =
     (if api_key svc = [] then (Inr [NeedApiKey], w)
      else
        let alias = norm_alias alias0;
            (steamid, w1) = norm_identifier env svc ident w
        in (case steamid of
              None \<Rightarrow> (Inr [CannotResolve ident], w1)
            | Some sid \<Rightarrow>
                if sid = [] then (Inr [CannotResolve ident], w1)
                else
                  let (info, w2) = get_summary env svc (JStr sid) w1
                  in if \<not> truthy info then (Inr [BindFailed sid], w2)
                     else
                       (case link_update (load_store w2) chat alias sid info (now env) of
                          Inl e \<Rightarrow> (Inl e, w2)
                        | Inr store' \<Rightarrow>
                            let w3 = save_store store' w2
                            in (case py_get info ''personaname'' (JStr []) of
                                  Inl e \<Rightarrow> (Inl e, w3)
                                | Inr name \<Rightarrow> (Inr [Bound alias name sid], w3)))))"

subsection \<open>do_unlink (lines 219 to 228)\<close>

definition do_unlink :: "string \<Rightarrow> string \<Rightarrow> world \<Rightarrow> outcome" where
  "do_unlink chat alias0 w =
     (let alias = lower (lstrip_at (strip alias0));
          store = load_store w
      in (case chat_aliases store chat of
            Inl e \<Rightarrow> (Inl e, w)
          | Inr aliases \<Rightarrow>
              (case py_contains aliases alias of
                 Inl e \<Rightarrow> (Inl e, w)
               | Inr found \<Rightarrow>
                   if \<not> found then (Inr [AliasNotFound alias], w)
                   else
                     (case py_delitem aliases alias of
                        Inl e \<Rightarrow> (Inl e, w)
                      | Inr aliases' \<Rightarrow>
                          (Inr [Unbound alias],
                           save_store (with_aliases store chat aliases') w)))))"

subsection \<open>do_list (lines 230 to 239)\<close>

fun list_entries :: "(string \<times> json) list \<Rightarrow> py_error + line list" where
  "list_entries [] = Inr []"
| "list_entries ((a, v) # rest) =
     (case py_get v ''personaname'' (JStr ''-'') of
        Inl e \<Rightarrow> Inl e
      | Inr name \<Rightarrow>
          (case py_get v ''steamid'' JNull of
             Inl e \<Rightarrow> Inl e
           | Inr sid \<Rightarrow>
               (case list_entries rest of
                  Inl e \<Rightarrow> Inl e
                | Inr ls \<Rightarrow> Inr (ListEntry a name sid # ls))))"

definition do_list :: "string \<Rightarrow> world \<Rightarrow> outcome" where
  "do_list chat w =
     (case chat_aliases (load_store w) chat of
        Inl e \<Rightarrow> (Inl e, w)
      | Inr aliases \<Rightarrow>
          if \<not> truthy aliases then (Inr [NoBindings], w)
          else
            (case aliases of
               JObj kvs \<Rightarrow>
                 (case list_entries kvs of
                    Inl e \<Rightarrow> (Inl e, w)
                  | Inr ls \<Rightarrow> (Inr (ListHeader # ls), w))
             | other \<Rightarrow> (Inl AttributeError, w)))"

subsection \<open>do_whois (lines 241 to 259)\<close>

text \<open>Lines 252 to 259: the reply for a summary that is not empty.\<close>

definition whois_lines :: "string \<Rightarrow> json \<Rightarrow> json \<Rightarrow> py_error + line list" where
  "whois_lines alias sid info =
     and_then (py_get info ''communityvisibilitystate'' JNull) (\<lambda>vis.
     and_then (py_get_opt info ''personaname'') (\<lambda>name.
     and_then (py_get info ''profileurl'' JNull) (\<lambda>url.
       Inr ([WhoisHeader alias name sid]
            @ (if truthy url then [ProfileUrl url] else [])
            @ (if py_eq_int vis 3 then [] else [WhoisPrivacy])))))"

definition do_whois ::
  "environment \<Rightarrow> steam_service \<Rightarrow> string \<Rightarrow> string \<Rightarrow> world \<Rightarrow> outcome" where
  "do_whois env svc chat alias0 w =
     (let alias = lower (lstrip_at (strip alias0))
      in (case and_then (chat_aliases (load_store w) chat) (\<lambda>aliases. py_get aliases alias JNull) of
            Inl e \<Rightarrow> (Inl e, w)
          | Inr rec \<Rightarrow>
              if \<not> truthy rec then (Inr [AliasNotFound alias], w)
              else
                (case py_getitem rec ''steamid'' of
                   Inl e \<Rightarrow> (Inl e, w)
                 | Inr sid \<Rightarrow>
                     let (info, w1) = get_summary env svc sid w
                     in if \<not> truthy info then (Inr [WhoisNoDetail alias sid], w1)
                        else (whois_lines alias sid info, w1))))"

subsection \<open>do_status (lines 261 to 296)\<close>

text \<open>
  Line 286, \<open>PERSONA_STATE.get(state, <unknown state text>)\<close>: the table is keyed by int,
  a bool is looked up as 0 or 1, a str is never a key, a list or a dict cannot be hashed.
\<close>

fun persona_text :: "json \<Rightarrow> py_error + state_text" where
  "persona_text (JInt i) =
     Inr (case map_of PERSONA_STATE i of Some l \<Rightarrow> Label l | None \<Rightarrow> UnknownState (JInt i))"
| "persona_text (JBool b) =
     Inr (case map_of PERSONA_STATE (if b then 1 else 0) of
            Some l \<Rightarrow> Label l
          | None \<Rightarrow> UnknownState (JBool b))"
| "persona_text (JStr s) = Inr (UnknownState (JStr s))"
| "persona_text JNull = Inr (UnknownState JNull)"
| "persona_text (JArr xs) = Inl TypeError"
| "persona_text (JObj kvs) = Inl TypeError"

text \<open>Lines 273 to 296: the reply for a summary that is not empty.\<close>

definition status_lines :: "json \<Rightarrow> json \<Rightarrow> py_error + line list" where
  "status_lines sid info =
     and_then (py_get info ''communityvisibilitystate'' JNull) (\<lambda>vis.
     and_then (py_get_opt info ''personaname'') (\<lambda>name.
     and_then (py_get info ''personastate'' JNull) (\<lambda>state.
     and_then (py_get info ''profileurl'' JNull) (\<lambda>url.
       let tail = (if truthy url then [ProfileUrl url] else [])
                  @ (if py_eq_int vis 3 then [] else [StatusPrivacy])
       in if state = JNull then Inr ([Player name sid, StateUndetermined] @ tail)
          else
            and_then (persona_text state) (\<lambda>s_text.
            and_then (py_get info ''gameextrainfo'' JNull) (\<lambda>game.
            and_then (py_get info ''lastlogoff'' JNull) (\<lambda>lastlogoff.
              Inr ([Player name sid, State s_text]
                   @ (if truthy game then [CurrentGame game] else [])
                   @ (if py_eq_int state 0 \<and> truthy lastlogoff
                      then [LastLogoff lastlogoff] else [])
                   @ tail))))))))"

fun json_of_result :: "string option \<Rightarrow> json" where
  "json_of_result None = JNull"
| "json_of_result (Some s) = JStr s"

text \<open>Lines 266 to 296: what follows once \<open>sid\<close> is known.\<close>

definition status_of ::
  "environment \<Rightarrow> steam_service \<Rightarrow> string \<Rightarrow> json \<Rightarrow> world \<Rightarrow> outcome" where
  "status_of env svc target sid w =
     (if \<not> truthy sid then (Inr [CannotResolve target], w)
      else
        let (info, w1) = get_summary env svc sid w
        in if \<not> truthy info then (Inr [FetchFailed sid], w1)
           else (status_lines sid info, w1))"

text \<open>
  Lines 262 to 265: the \<open>sid\<close> the command goes on with, the stored one of a bound
  alias or else what \<open>norm_identifier\<close> makes of the raw target.
\<close>

definition status_sid ::
  "environment \<Rightarrow> steam_service \<Rightarrow> string \<Rightarrow> string \<Rightarrow> world \<Rightarrow> (py_error + json) \<times> world"
  where
  "status_sid env svc chat target w =
     (case and_then (chat_aliases (load_store w) chat)
             (\<lambda>aliases. py_get aliases (norm_alias target) JNull) of
        Inl e \<Rightarrow> (Inl e, w)
      | Inr rec \<Rightarrow>
          if truthy rec then (py_getitem rec ''steamid'', w)
          else
            let (found, w1) = norm_identifier env svc target w
            in (Inr (json_of_result found), w1))"

definition do_status ::
  "environment \<Rightarrow> steam_service \<Rightarrow> string \<Rightarrow> string \<Rightarrow> world \<Rightarrow> outcome" where
  "do_status env svc chat target w =
     (case status_sid env svc chat target w of
        (Inl e, w1) \<Rightarrow> (Inl e, w1)
      | (Inr sid, w1) \<Rightarrow> status_of env svc target sid w1)"

section \<open>The persisted document\<close>

text \<open>
  The shape of the document as the commands write it: a dict of chat scopes, each a dict
  whose \<open>aliases\<close>, when there, is a dict of records, each a dict with a \<open>steamid\<close>;
  the keys of every dict are distinct.
\<close>

fun valid_record :: "json \<Rightarrow> bool" where
  "valid_record (JObj fs) = (distinct (map fst fs) \<and> map_of fs ''steamid'' \<noteq> None)"
| "valid_record _ = False"

fun valid_aliases :: "json \<Rightarrow> bool" where
  "valid_aliases (JObj m) = (distinct (map fst m) \<and> list_all (\<lambda>p. valid_record (snd p)) m)"
| "valid_aliases _ = False"

fun valid_scope :: "json \<Rightarrow> bool" where
  "valid_scope (JObj fs) =
     (distinct (map fst fs) \<and>
      (case map_of fs ''aliases'' of None \<Rightarrow> True | Some a \<Rightarrow> valid_aliases a))"
| "valid_scope _ = False"

fun valid_store :: "json \<Rightarrow> bool" where
  "valid_store (JObj chats) =
     (distinct (map fst chats) \<and> list_all (\<lambda>p. valid_scope (snd p)) chats)"
| "valid_store _ = False"

text \<open>The bindings of a chat in a store, in insertion order.\<close>

definition aliases_of :: "json \<Rightarrow> string \<Rightarrow> (string \<times> json) list" where
  "aliases_of store chat =
     (case store of
        JObj chats \<Rightarrow>
          (case map_of chats chat of
             Some (JObj fs) \<Rightarrow>
               (case map_of fs ''aliases'' of Some (JObj m) \<Rightarrow> m | other \<Rightarrow> [])
           | other \<Rightarrow> [])
      | other \<Rightarrow> [])"

text \<open>
  The worlds the commands can reach when \<open>data.json\<close> is absent or unreadable before
  the first command and is written by \<open>_save_store\<close> only.
\<close>

inductive reachable :: "world \<Rightarrow> bool" where
  first: "data_file w = Absent \<or> data_file w = Unreadable \<Longrightarrow> reachable w"
| link: "reachable w \<Longrightarrow> reachable (snd (do_link env svc chat alias0 ident w))"
| unlink: "reachable w \<Longrightarrow> reachable (snd (do_unlink chat alias0 w))"
| list: "reachable w \<Longrightarrow> reachable (snd (do_list chat w))"
| whois: "reachable w \<Longrightarrow> reachable (snd (do_whois env svc chat alias0 w))"
| status: "reachable w \<Longrightarrow> reachable (snd (do_status env svc chat target w))"

section \<open>Sample inputs\<close>

text \<open>
  Inputs for the concrete runs below: an environment in which every request fails, one
  in which every summaries request is answered with the same online player at clock
  \<open>t\<close>, one in which every request is answered with the given player, the world
  before the first command, a store in which the chat \<open>room\<close> binds the alias \<open>1\<close>,
  and one in which it binds \<open>bob\<close>.
\<close>

abbreviation silent :: environment where
  "silent \<equiv> \<lparr>http_get = (\<lambda>r. None), now = 0, str_container = (\<lambda>v. [])\<rparr>"

abbreviation answering :: "int \<Rightarrow> environment" where
  "answering t \<equiv>
     \<lparr>http_get = (\<lambda>r. case r of
          ResolveVanityURL k v \<Rightarrow> None
        | GetPlayerSummaries k s \<Rightarrow>
            Some (JObj [(''response'', JObj [(''players'',
              JArr [JObj [(''personaname'', JStr ''Bob''), (''personastate'', JInt 1)]])])])),
      now = t, str_container = (\<lambda>v. [])\<rparr>"

abbreviation replying :: "json \<Rightarrow> environment" where
  "replying player \<equiv>
     \<lparr>http_get = (\<lambda>r. Some (JObj [(''response'', JObj [(''players'', JArr [player])])])),
      now = 0, str_container = (\<lambda>v. [])\<rparr>"

abbreviation fresh :: world where
  "fresh \<equiv> \<lparr>data_file = Absent, sent = []\<rparr>"

abbreviation one_store :: json where
  "one_store \<equiv> JObj [(''room'', JObj [(''aliases'',
     JObj [(''1'', JObj [(''steamid'', JStr ''76561197960265730'')])])])]"

abbreviation bob_store :: json where
  "bob_store \<equiv> JObj [(''room'', JObj [(''aliases'',
     JObj [(''bob'', JObj [(''steamid'', JStr ''76561197960265729'')])])])]"

section \<open>Properties\<close>

subsection \<open>Dicts\<close>

lemma map_of_dict_set: "map_of (dict_set k v ps) = (map_of ps)(k \<mapsto> v)"
  by (induction ps) (auto simp: fun_eq_iff)

lemma set_dict_set: "set (dict_set k v ps) \<subseteq> insert (k, v) (set ps)"
  by (induction ps) auto

lemma fst_set_dict_set: "fst ` set (dict_set k v ps) = insert k (fst ` set ps)"
  by (induction ps) auto

lemma distinct_dict_set: "distinct (map fst ps) \<Longrightarrow> distinct (map fst (dict_set k v ps))"
proof (induction ps)
  case Nil
  then show ?case by simp
next
  case (Cons p ps)
  have "fst p \<notin> fst ` set (dict_set k v ps)" if "fst p \<noteq> k"
    using that Cons.prems by (simp add: fst_set_dict_set)
  with Cons show ?case by auto
qed

lemma list_all_dict_set:
  "list_all (\<lambda>p. P (snd p)) ps \<Longrightarrow> P v \<Longrightarrow> list_all (\<lambda>p. P (snd p)) (dict_set k v ps)"
  by (induction ps) auto

lemma count_dict_set:
  "distinct (map fst ps) \<Longrightarrow> length (filter (\<lambda>p. fst p = k) (dict_set k v ps)) = 1"
proof (induction ps)
  case Nil
  then show ?case by simp
next
  case (Cons p ps)
  show ?case
  proof (cases "fst p = k")
    case True
    have "k \<notin> fst ` set ps"
      using True Cons.prems by auto
    then have "filter (\<lambda>q. fst q = k) ps = []"
      by (auto simp: filter_empty_conv)
    with True show ?thesis by simp
  next
    case False
    with Cons show ?thesis by simp
  qed
qed

lemma map_of_dict_del: "map_of (dict_del k ps) = (map_of ps)(k := None)"
  by (induction ps) (auto simp: dict_del_def fun_eq_iff)

lemma distinct_dict_del: "distinct (map fst ps) \<Longrightarrow> distinct (map fst (dict_del k ps))"
  by (simp add: dict_del_def distinct_map_filter)

lemma list_all_dict_del: "list_all P ps \<Longrightarrow> list_all P (dict_del k ps)"
  by (induction ps) (auto simp: dict_del_def)

lemma list_all_map_of:
  "list_all (\<lambda>p. P (snd p)) ps \<Longrightarrow> map_of ps k = Some v \<Longrightarrow> P v"
  by (induction ps) (auto split: if_splits)

subsection \<open>Valid stores\<close>

lemma valid_record_cases: "valid_record r \<Longrightarrow> \<exists>fs. r = JObj fs"
  by (cases r) auto

lemma valid_aliases_cases: "valid_aliases a \<Longrightarrow> \<exists>m. a = JObj m"
  by (cases a) auto

lemma valid_scope_cases: "valid_scope s \<Longrightarrow> \<exists>fs. s = JObj fs"
  by (cases s) auto

lemma valid_store_cases: "valid_store S \<Longrightarrow> \<exists>chats. S = JObj chats"
  by (cases S) auto

lemma chat_aliases_valid:
  assumes "valid_store S"
  shows "chat_aliases S chat = Inr (JObj (aliases_of S chat))"
proof -
  from assms obtain chats where S: "S = JObj chats"
    using valid_store_cases by blast
  show ?thesis
  proof (cases "map_of chats chat")
    case None
    then show ?thesis
      by (simp add: S chat_aliases_def and_then_def aliases_of_def)
  next
    case (Some scope)
    with assms S have "valid_scope scope"
      using list_all_map_of[of valid_scope chats chat scope] by simp
    then obtain fs where scope: "scope = JObj fs" and fs: "valid_scope (JObj fs)"
      using valid_scope_cases by blast
    show ?thesis
    proof (cases "map_of fs ''aliases''")
      case None
      then show ?thesis
        using Some by (simp add: S scope chat_aliases_def and_then_def aliases_of_def)
    next
      case (Some a)
      with fs have "valid_aliases a" by simp
      then obtain m where "a = JObj m"
        using valid_aliases_cases by blast
      then show ?thesis
        using Some \<open>map_of chats chat = Some scope\<close>
        by (simp add: S scope chat_aliases_def and_then_def aliases_of_def)
    qed
  qed
qed

lemma valid_aliases_of:
  assumes "valid_store S"
  shows "valid_aliases (JObj (aliases_of S chat))"
proof -
  from assms obtain chats where S: "S = JObj chats"
    using valid_store_cases by blast
  show ?thesis
  proof (cases "map_of chats chat")
    case None
    then show ?thesis by (simp add: S aliases_of_def)
  next
    case (Some scope)
    with assms S have "valid_scope scope"
      using list_all_map_of[of valid_scope chats chat scope] by simp
    then obtain fs where scope: "scope = JObj fs" and fs: "valid_scope (JObj fs)"
      using valid_scope_cases by blast
    show ?thesis
    proof (cases "map_of fs ''aliases''")
      case None
      then show ?thesis
        using Some by (simp add: S scope aliases_of_def)
    next
      case (Some a)
      with fs have va: "valid_aliases a" by simp
      then obtain m where "a = JObj m"
        using valid_aliases_cases by blast
      then show ?thesis
        using Some va \<open>map_of chats chat = Some scope\<close>
        by (simp add: S scope aliases_of_def)
    qed
  qed
qed

lemma with_aliases_valid:
  assumes "valid_store S" and "valid_aliases (JObj m)"
  shows "valid_store (with_aliases S chat (JObj m))"
    and "aliases_of (with_aliases S chat (JObj m)) chat = m"
    and "c \<noteq> chat \<Longrightarrow> aliases_of (with_aliases S chat (JObj m)) c = aliases_of S c"
proof -
  from assms obtain chats where S: "S = JObj chats"
    using valid_store_cases by blast
  from assms S have dc: "distinct (map fst chats)" and ac: "list_all (\<lambda>p. valid_scope (snd p)) chats"
    by simp_all
  define scope' where "scope' =
    (case map_of chats chat of None \<Rightarrow> JObj [(''aliases'', JObj m)]
     | Some (JObj fs) \<Rightarrow> JObj (dict_set ''aliases'' (JObj m) fs) | Some other \<Rightarrow> other)"
  have vs: "\<exists>fs'. scope' = JObj fs' \<and> valid_scope scope' \<and> map_of fs' ''aliases'' = Some (JObj m)"
  proof (cases "map_of chats chat")
    case None
    then show ?thesis using assms(2) by (simp add: scope'_def)
  next
    case (Some scope)
    with ac have "valid_scope scope"
      using list_all_map_of[of valid_scope chats chat scope] by simp
    then obtain fs where scope: "scope = JObj fs" and fs: "valid_scope (JObj fs)"
      using valid_scope_cases by blast
    then show ?thesis
      using Some assms(2) by (simp add: scope'_def distinct_dict_set map_of_dict_set)
  qed
  have w: "with_aliases S chat (JObj m) = JObj (dict_set chat scope' chats)"
  proof (cases "map_of chats chat")
    case None
    then show ?thesis by (simp add: S with_aliases_def scope'_def)
  next
    case (Some scope)
    with ac have "valid_scope scope"
      using list_all_map_of[of valid_scope chats chat scope] by simp
    then obtain fs where scope: "scope = JObj fs"
      using valid_scope_cases by blast
    then show ?thesis using Some by (simp add: S with_aliases_def scope'_def)
  qed
  show "valid_store (with_aliases S chat (JObj m))"
    using dc vs list_all_dict_set[of valid_scope chats scope' chat, OF ac]
    by (auto simp: w distinct_dict_set)
  from vs show "aliases_of (with_aliases S chat (JObj m)) chat = m"
    by (auto simp: w aliases_of_def map_of_dict_set)
  show "aliases_of (with_aliases S chat (JObj m)) c = aliases_of S c" if "c \<noteq> chat"
    using that unfolding w by (simp add: S aliases_of_def map_of_dict_set)
qed

subsection \<open>Decimal strings\<close>

lemma code_point_digit_char: "d < 10 \<Longrightarrow> code_point (digit_char d) = 48 + d"
  by (simp add: code_point_def digit_char_def)

lemma is_decimal_digit_char: "d < 10 \<Longrightarrow> is_decimal (digit_char d)"
  by (simp add: is_decimal_def code_point_digit_char)

lemma digit_val_digit_char: "d < 10 \<Longrightarrow> digit_val (digit_char d) = int d"
  by (simp add: digit_val_def code_point_digit_char)

lemma decimal_value_snoc: "decimal_value (s @ [c]) = 10 * decimal_value s + digit_val c"
  by (simp add: decimal_value_def)

lemma str_nat_is_decimal: "list_all is_decimal (str_nat n)"
proof (induction n rule: str_nat.induct)
  case (1 n)
  then show ?case
    by (subst str_nat.simps) (simp add: is_decimal_digit_char)
qed

lemma str_nat_not_empty: "str_nat n \<noteq> []"
  by (subst str_nat.simps) simp

lemma decimal_value_str_nat: "decimal_value (str_nat n) = int n"
proof (induction n rule: str_nat.induct)
  case (1 n)
  show ?case
  proof (cases "n < 10")
    case True
    then show ?thesis
      by (subst str_nat.simps) (simp add: decimal_value_def digit_val_digit_char)
  next
    case False
    with 1 have "decimal_value (str_nat (n div 10)) = int (n div 10)"
      by simp
    with False show ?thesis
      by (subst str_nat.simps) (simp add: decimal_value_snoc digit_val_digit_char zdiv_int zmod_int)
  qed
qed

lemma int_of_digits_str_int: "0 \<le> i \<Longrightarrow> int_of_digits (str_int i) = Some i"
  by (simp add: int_of_digits_def str_int_def str_nat_is_decimal str_nat_not_empty
      decimal_value_str_nat)

lemma is_decimal_isdigit: "list_all is_decimal t \<Longrightarrow> list_all py_isdigit t"
  by (induction t) (auto simp: py_isdigit_def)

subsection \<open>The service touches the file never, the network only with a key\<close>

lemma resolve_vanity_no_key: "api_key svc = [] \<Longrightarrow> resolve_vanity env svc v w = (None, w)"
  by (simp add: resolve_vanity_def)

lemma get_summary_no_key: "api_key svc = [] \<Longrightarrow> get_summary env svc sid w = (JObj [], w)"
  by (simp add: get_summary_def)

lemma resolve_vanity_file: "data_file (snd (resolve_vanity env svc v w)) = data_file w"
  by (simp add: resolve_vanity_def Let_def split: option.splits)

lemma get_summary_file: "data_file (snd (get_summary env svc sid w)) = data_file w"
  by (simp add: get_summary_def Let_def split: option.splits)

lemma norm_identifier_file: "data_file (snd (norm_identifier env svc s w)) = data_file w"
  by (simp add: norm_identifier_def Let_def resolve_vanity_file split: option.splits)

lemma get_summary_sent:
  "sent (snd (get_summary env svc sid w)) = sent w \<or>
   sent (snd (get_summary env svc sid w)) = sent w @ [GetPlayerSummaries (api_key svc) sid]"
  by (simp add: get_summary_def Let_def split: option.splits)

lemma load_store_file: "data_file w' = data_file w \<Longrightarrow> load_store w' = load_store w"
  by (simp add: load_store_def)

text \<open>
  C1. Let \<open>t\<close> be the input after \<open>strip()\<close> and \<open>lstrip("@")\<close>. When \<open>t\<close> is a (non-empty)
  string of decimal digits, \<open>norm_identifier\<close> returns \<open>t\<close> itself if it has 16 characters
  or more, and otherwise the decimal string of its integer value plus
  76561197960265728; it sends no request.
\<close>

theorem norm_identifier_digits:
  assumes "t = lstrip_at (strip s)" and "t \<noteq> []" and "list_all is_decimal t"
  shows "norm_identifier env svc s w =
           (Some (if 16 \<le> length t then t
                  else str_int (decimal_value t + 76561197960265728)), w)"
  using assms is_decimal_isdigit[of t]
  by (simp add: norm_identifier_def isdigit_def int_of_digits_def Let_def)

theorem norm_identifier_digits_witness:
  "norm_identifier \<lparr>http_get = (\<lambda>r. None), now = 0, str_container = (\<lambda>v. [])\<rparr>
     \<lparr>api_key = ''KEY''\<rparr> ''1'' \<lparr>data_file = Absent, sent = []\<rparr>
   = (Some ''76561197960265729'', \<lparr>data_file = Absent, sent = []\<rparr>)
   \<and> norm_identifier \<lparr>http_get = (\<lambda>r. None), now = 0, str_container = (\<lambda>v. [])\<rparr>
     \<lparr>api_key = ''KEY''\<rparr> '' @76561197960265729 '' \<lparr>data_file = Absent, sent = []\<rparr>
   = (Some ''76561197960265729'', \<lparr>data_file = Absent, sent = []\<rparr>)"
proof -
  have t1: "''1'' = lstrip_at (strip ''1'')"
    by (simp add: lstrip_at_def strip_def py_isspace_def code_point_def)
  have d1: "list_all is_decimal ''1''"
    by (simp add: is_decimal_def code_point_def)
  have v1: "str_int (decimal_value ''1'' + 76561197960265728) = ''76561197960265729''"
    by (simp add: str_int_def decimal_value_def digit_val_def code_point_def str_nat.simps
        digit_char_def char_of_eq_iff)
  have t2: "''76561197960265729'' = lstrip_at (strip '' @76561197960265729 '')"
    by (simp add: lstrip_at_def strip_def py_isspace_def code_point_def)
  have d2: "list_all is_decimal ''76561197960265729''"
    by (simp add: is_decimal_def code_point_def)
  show ?thesis
    using norm_identifier_digits[OF t1 _ d1] norm_identifier_digits[OF t2 _ d2]
    by (simp add: v1)
qed

text \<open>
  C4. When \<open>data.json\<close> is absent or cannot be read as JSON, \<open>_load_store\<close> returns the
  empty dict (it has no way to raise), and \<open>do_list\<close> on any chat then replies that
  nothing is bound, leaving the world as it was.
\<close>

theorem load_absent_or_unreadable:
  assumes "data_file w = Absent \<or> data_file w = Unreadable"
  shows "load_store w = JObj [] \<and> do_list chat w = (Inr [NoBindings], w)"
  using assms
  by (auto simp: load_store_def do_list_def chat_aliases_def and_then_def)

theorem load_absent_or_unreadable_witness:
  "load_store \<lparr>data_file = Unreadable, sent = []\<rparr> = JObj []
   \<and> do_list ''room'' \<lparr>data_file = Unreadable, sent = []\<rparr>
       = (Inr [NoBindings], \<lparr>data_file = Unreadable, sent = []\<rparr>)
   \<and> load_store \<lparr>data_file = Absent, sent = []\<rparr> = JObj []
   \<and> do_list ''room'' \<lparr>data_file = Absent, sent = []\<rparr>
       = (Inr [NoBindings], \<lparr>data_file = Absent, sent = []\<rparr>)"
  using load_absent_or_unreadable[of "\<lparr>data_file = Unreadable, sent = []\<rparr>" "''room''"]
    load_absent_or_unreadable[of "\<lparr>data_file = Absent, sent = []\<rparr>" "''room''"]
  by simp

subsection \<open>Two concrete runs of the resolver\<close>

lemma norm_identifier_one:
  "norm_identifier env svc ''1'' w = (Some ''76561197960265729'', w)"
proof -
  have s1: "lstrip_at (strip ''1'') = ''1''"
    by (simp add: lstrip_at_def strip_def py_isspace_def code_point_def)
  have d1: "isdigit ''1''"
    by (simp add: isdigit_def py_isdigit_def is_decimal_def code_point_def)
  have v1: "int_of_digits ''1'' = Some 1"
    by (simp add: int_of_digits_def is_decimal_def decimal_value_def digit_val_def code_point_def)
  have v2: "str_int 76561197960265729 = ''76561197960265729''"
    by (simp add: str_int_def str_nat.simps digit_char_def char_of_eq_iff)
  show ?thesis
    by (simp add: norm_identifier_def s1 d1 v1 v2)
qed

lemma norm_identifier_gaben:
  "norm_identifier \<lparr>http_get = (\<lambda>r. None), now = t, str_container = c\<rparr>
     \<lparr>api_key = ''KEY''\<rparr> ''gaben'' w
   = (None, w\<lparr>sent := sent w @ [ResolveVanityURL ''KEY'' ''gaben'']\<rparr>)"
proof -
  have s: "lstrip_at (strip ''gaben'') = ''gaben''"
    by (simp add: lstrip_at_def strip_def py_isspace_def code_point_def)
  have d: "\<not> isdigit ''gaben''"
    by (simp add: isdigit_def py_isdigit_def is_decimal_def code_point_def)
  show ?thesis
    by (simp add: norm_identifier_def s d resolve_vanity_def)
qed

subsection \<open>Commands without a key\<close>

lemma SteamService_no_key: "strip key = [] \<Longrightarrow> api_key (SteamService key) = []"
  by (simp add: SteamService_def)

lemma norm_identifier_no_key:
  "api_key svc = [] \<Longrightarrow> snd (norm_identifier env svc s w) = w"
  by (simp add: norm_identifier_def Let_def resolve_vanity_no_key split: option.splits)

lemma status_of_no_key:
  "api_key svc = [] \<Longrightarrow>
   status_of env svc target sid w =
     (Inr [if truthy sid then FetchFailed sid else CannotResolve target], w)"
  by (simp add: status_of_def get_summary_no_key)

lemma do_status_no_key:
  assumes "api_key svc = []"
  shows "snd (do_status env svc chat target w) = w"
    and "(\<exists>e. fst (do_status env svc chat target w) = Inl e) \<or>
         fst (do_status env svc chat target w) = Inr [CannotResolve target] \<or>
         (\<exists>sid. fst (do_status env svc chat target w) = Inr [FetchFailed sid])"
proof -
  obtain found w1 where ni: "norm_identifier env svc target w = (found, w1)"
    by (cases "norm_identifier env svc target w")
  with assms have w1: "w1 = w"
    using norm_identifier_no_key[of svc env target w] by simp
  show "snd (do_status env svc chat target w) = w"
    using assms ni w1
    by (simp add: do_status_def status_sid_def status_of_no_key split: sum.splits)
  show "(\<exists>e. fst (do_status env svc chat target w) = Inl e) \<or>
         fst (do_status env svc chat target w) = Inr [CannotResolve target] \<or>
         (\<exists>sid. fst (do_status env svc chat target w) = Inr [FetchFailed sid])"
    using assms ni w1
    by (simp add: do_status_def status_sid_def status_of_no_key split: sum.splits)
qed

lemma do_whois_no_key:
  assumes "api_key svc = []"
  shows "snd (do_whois env svc chat alias0 w) = w"
    and "(\<exists>e. fst (do_whois env svc chat alias0 w) = Inl e) \<or>
         fst (do_whois env svc chat alias0 w) = Inr [AliasNotFound (norm_alias alias0)] \<or>
         (\<exists>sid. fst (do_whois env svc chat alias0 w) = Inr [WhoisNoDetail (norm_alias alias0) sid])"
  using assms
  by (simp_all add: do_whois_def Let_def get_summary_no_key norm_alias_def split: sum.splits)

text \<open>
  Without a credential (empty after \<open>strip\<close>) none of \<open>link\<close>, \<open>status\<close> and \<open>whois\<close>
  sends a request or changes the world. Only \<open>link\<close> has the guard of lines 196 to
  197 and replies with the configuration message; \<open>status\<close> and \<open>whois\<close> run on and
  reply with their ordinary failure messages.
\<close>

lemma no_key_no_request:
  assumes "strip key = []"
  shows "do_link env (SteamService key) chat alias0 ident w = (Inr [NeedApiKey], w)
       \<and> snd (do_status env (SteamService key) chat target w) = w
       \<and> ((\<exists>e. fst (do_status env (SteamService key) chat target w) = Inl e) \<or>
          fst (do_status env (SteamService key) chat target w) = Inr [CannotResolve target] \<or>
          (\<exists>sid. fst (do_status env (SteamService key) chat target w) = Inr [FetchFailed sid]))
       \<and> snd (do_whois env (SteamService key) chat alias0 w) = w
       \<and> ((\<exists>e. fst (do_whois env (SteamService key) chat alias0 w) = Inl e) \<or>
          fst (do_whois env (SteamService key) chat alias0 w)
            = Inr [AliasNotFound (norm_alias alias0)] \<or>
          (\<exists>sid. fst (do_whois env (SteamService key) chat alias0 w)
            = Inr [WhoisNoDetail (norm_alias alias0) sid]))"
proof -
  have k: "api_key (SteamService key) = []"
    using assms by (rule SteamService_no_key)
  have "do_link env (SteamService key) chat alias0 ident w = (Inr [NeedApiKey], w)"
    using k by (simp add: do_link_def)
  then show ?thesis
    using do_status_no_key[OF k, of env chat target w] do_whois_no_key[OF k, of env chat alias0 w]
    by blast
qed

text \<open>
  C2. With the credential absent, \<open>link\<close> replies with the configuration message, and
  the claim asks the same of \<open>status\<close> and \<open>whois\<close>. The code does not do it: for the
  target \<open>1\<close> in a chat without bindings \<open>status\<close> replies that the summary of
  76561197960265729 could not be fetched, and for the bound alias \<open>bob\<close> \<open>whois\<close> shows
  the bound id and says that no details could be fetched. Neither sends a request, as
  the claim says.
\<close>

theorem status_whois_without_key:
  "strip [] = []
   \<and> do_link silent (SteamService []) ''room'' ''bob'' ''1'' fresh = (Inr [NeedApiKey], fresh)
   \<and> do_status silent (SteamService []) ''room'' ''1'' fresh
       = (Inr [FetchFailed (JStr ''76561197960265729'')], fresh)
   \<and> do_whois silent (SteamService []) ''room'' ''bob''
         \<lparr>data_file = Holds bob_store, sent = []\<rparr>
       = (Inr [WhoisNoDetail ''bob'' (JStr ''76561197960265729'')],
          \<lparr>data_file = Holds bob_store, sent = []\<rparr>)"
proof -
  have k: "strip [] = []"
    by (simp add: strip_def)
  have a1: "norm_alias ''1'' = ''1''"
    by (simp add: norm_alias_def lstrip_at_def strip_def py_isspace_def lower_def py_lower_def
        code_point_def)
  have ln: "do_link silent (SteamService []) ''room'' ''bob'' ''1'' fresh
       = (Inr [NeedApiKey], fresh)"
    by (simp add: do_link_def SteamService_def k)
  have st: "do_status silent (SteamService []) ''room'' ''1'' fresh
       = (Inr [FetchFailed (JStr ''76561197960265729'')], fresh)"
    by (simp add: do_status_def status_sid_def chat_aliases_def and_then_def load_store_def a1
        norm_identifier_one status_of_def get_summary_def SteamService_def k)
  have b1: "lower (lstrip_at (strip ''bob'')) = ''bob''"
    by (simp add: lstrip_at_def strip_def py_isspace_def lower_def py_lower_def code_point_def)
  have wh: "do_whois silent (SteamService []) ''room'' ''bob''
         \<lparr>data_file = Holds bob_store, sent = []\<rparr>
       = (Inr [WhoisNoDetail ''bob'' (JStr ''76561197960265729'')],
          \<lparr>data_file = Holds bob_store, sent = []\<rparr>)"
    by (simp add: do_whois_def b1 chat_aliases_def and_then_def load_store_def
        get_summary_def SteamService_def k Let_def)
  show ?thesis
    using k ln st wh by simp
qed

subsection \<open>A failed link\<close>

text \<open>
  C3. When the identifier is not resolved (\<open>norm_identifier\<close> returns \<open>None\<close> or an empty
  string), or the summary fetched for the resolved id is empty (falsy), \<open>do_link\<close>
  replies with a failure message (configuration, cannot resolve, or bind failed) and
  \<open>data.json\<close> is what it was.
\<close>

theorem do_link_failure_keeps_file:
  assumes "norm_identifier env svc ident w = (found, w1)"
    and "found = None \<or> found = Some [] \<or>
         (\<exists>sid. found = Some sid \<and> \<not> truthy (fst (get_summary env svc (JStr sid) w1)))"
  shows "(fst (do_link env svc chat alias0 ident w) = Inr [NeedApiKey] \<or>
          fst (do_link env svc chat alias0 ident w) = Inr [CannotResolve ident] \<or>
          (\<exists>sid. found = Some sid \<and>
             fst (do_link env svc chat alias0 ident w) = Inr [BindFailed sid]))
       \<and> data_file (snd (do_link env svc chat alias0 ident w)) = data_file w"
proof (cases "api_key svc = []")
  case True
  then show ?thesis by (simp add: do_link_def)
next
  case False
  have f1: "data_file w1 = data_file w"
    using norm_identifier_file[of env svc ident w] assms(1) by simp
  from assms(2) consider
    (unresolved) "found = None \<or> found = Some []" |
    (empty) sid where "found = Some sid" "sid \<noteq> []"
      "\<not> truthy (fst (get_summary env svc (JStr sid) w1))"
    by (cases found) auto
  then show ?thesis
  proof cases
    case unresolved
    then show ?thesis
      using False assms(1) f1 by (auto simp: do_link_def)
  next
    case empty
    obtain info w2 where gs: "get_summary env svc (JStr sid) w1 = (info, w2)"
      by (cases "get_summary env svc (JStr sid) w1")
    with empty(3) have "\<not> truthy info" by simp
    moreover have "data_file w2 = data_file w1"
      using get_summary_file[of env svc "JStr sid" w1] gs by simp
    ultimately show ?thesis
      using False assms(1) f1 empty(1,2) gs by (simp add: do_link_def)
  qed
qed


theorem do_link_failure_keeps_file_witness:
  "do_link silent \<lparr>api_key = ''KEY''\<rparr> ''room'' ''Bob'' ''gaben''
         \<lparr>data_file = Holds bob_store, sent = []\<rparr>
       = (Inr [CannotResolve ''gaben''],
          \<lparr>data_file = Holds bob_store, sent = [ResolveVanityURL ''KEY'' ''gaben'']\<rparr>)
   \<and> data_file (snd (do_link silent \<lparr>api_key = ''KEY''\<rparr> ''room'' ''Bob'' ''gaben''
         \<lparr>data_file = Holds bob_store, sent = []\<rparr>)) = Holds bob_store
   \<and> do_link silent \<lparr>api_key = ''KEY''\<rparr> ''room'' ''Bob'' ''1''
         \<lparr>data_file = Holds bob_store, sent = []\<rparr>
       = (Inr [BindFailed ''76561197960265729''],
          \<lparr>data_file = Holds bob_store,
           sent = [GetPlayerSummaries ''KEY'' (JStr ''76561197960265729'')]\<rparr>)
   \<and> data_file (snd (do_link silent \<lparr>api_key = ''KEY''\<rparr> ''room'' ''Bob'' ''1''
         \<lparr>data_file = Holds bob_store, sent = []\<rparr>)) = Holds bob_store"
proof -
  let ?w = "\<lparr>data_file = Holds bob_store, sent = []\<rparr>"
  let ?w1 = "\<lparr>data_file = Holds bob_store, sent = [ResolveVanityURL ''KEY'' ''gaben'']\<rparr>"
  let ?w2 = "\<lparr>data_file = Holds bob_store,
              sent = [GetPlayerSummaries ''KEY'' (JStr ''76561197960265729'')]\<rparr>"
  have n: "norm_identifier silent \<lparr>api_key = ''KEY''\<rparr> ''gaben'' ?w = (None, ?w1)"
    by (simp add: norm_identifier_gaben)
  have l: "do_link silent \<lparr>api_key = ''KEY''\<rparr> ''room'' ''Bob'' ''gaben'' ?w
             = (Inr [CannotResolve ''gaben''], ?w1)"
    by (simp add: do_link_def n)
  have n1: "norm_identifier silent \<lparr>api_key = ''KEY''\<rparr> ''1'' ?w
              = (Some ''76561197960265729'', ?w)"
    by (rule norm_identifier_one)
  have g1: "get_summary silent \<lparr>api_key = ''KEY''\<rparr> (JStr ''76561197960265729'') ?w
              = (JObj [], ?w2)"
    by (simp add: get_summary_def)
  have l1: "do_link silent \<lparr>api_key = ''KEY''\<rparr> ''room'' ''Bob'' ''1'' ?w
             = (Inr [BindFailed ''76561197960265729''], ?w2)"
    by (simp add: do_link_def n1 g1)
  show ?thesis
    using do_link_failure_keeps_file[OF n, of "''room''" "''Bob''"]
      do_link_failure_keeps_file[OF n1, of "''room''" "''Bob''"] l l1 g1
    by simp
qed

subsection \<open>Unlink\<close>

lemma valid_aliases_dict_del: "valid_aliases (JObj m) \<Longrightarrow> valid_aliases (JObj (dict_del k m))"
  by (simp add: distinct_dict_del list_all_dict_del)

lemma valid_store_empty: "valid_store (JObj [])"
  by simp

text \<open>
  C5. On a store of the shape the commands write (the empty store included), with
  \<open>k\<close> the normalized alias: when the chat has no binding for \<open>k\<close>, \<open>do_unlink\<close> replies
  that the alias was not found, raises nothing and leaves the world as it was; when it
  has one, \<open>do_unlink\<close> replies that it is unbound and saves a store in which the chat
  has lost exactly that binding and every other chat has kept its bindings.
\<close>

theorem do_unlink_spec:
  assumes "valid_store (load_store w)"
  shows "(map_of (aliases_of (load_store w) chat) (norm_alias a) = None \<longrightarrow>
            do_unlink chat a w = (Inr [AliasNotFound (norm_alias a)], w))
       \<and> (map_of (aliases_of (load_store w) chat) (norm_alias a) \<noteq> None \<longrightarrow>
            (\<exists>S'. do_unlink chat a w = (Inr [Unbound (norm_alias a)], w\<lparr>data_file := Holds S'\<rparr>)
               \<and> valid_store S'
               \<and> aliases_of S' chat = dict_del (norm_alias a) (aliases_of (load_store w) chat)
               \<and> map_of (aliases_of S' chat) (norm_alias a) = None
               \<and> (\<forall>c. c \<noteq> chat \<longrightarrow> aliases_of S' c = aliases_of (load_store w) c)))"
proof -
  let ?S = "load_store w"
  let ?k = "norm_alias a"
  let ?m = "aliases_of ?S chat"
  have ca: "chat_aliases ?S chat = Inr (JObj ?m)"
    using assms by (rule chat_aliases_valid)
  have k: "lower (lstrip_at (strip a)) = ?k"
    by (simp add: norm_alias_def)
  have absent: "do_unlink chat a w = (Inr [AliasNotFound ?k], w)" if "map_of ?m ?k = None"
    using that by (simp add: do_unlink_def Let_def k ca)
  have present: "\<exists>S'. do_unlink chat a w = (Inr [Unbound ?k], w\<lparr>data_file := Holds S'\<rparr>)
               \<and> valid_store S'
               \<and> aliases_of S' chat = dict_del ?k ?m
               \<and> map_of (aliases_of S' chat) ?k = None
               \<and> (\<forall>c. c \<noteq> chat \<longrightarrow> aliases_of S' c = aliases_of ?S c)"
    if "map_of ?m ?k \<noteq> None"
  proof -
    let ?S' = "with_aliases ?S chat (JObj (dict_del ?k ?m))"
    have va: "valid_aliases (JObj (dict_del ?k ?m))"
      using valid_aliases_of[OF assms, of chat] by (rule valid_aliases_dict_del)
    have "do_unlink chat a w = (Inr [Unbound ?k], w\<lparr>data_file := Holds ?S'\<rparr>)"
      using that by (simp add: do_unlink_def Let_def k ca save_store_def)
    moreover have "valid_store ?S'"
      using assms va by (rule with_aliases_valid(1))
    moreover have eq: "aliases_of ?S' chat = dict_del ?k ?m"
      using assms va by (rule with_aliases_valid(2))
    moreover have "map_of (aliases_of ?S' chat) ?k = None"
      by (simp add: eq map_of_dict_del)
    moreover have "\<forall>c. c \<noteq> chat \<longrightarrow> aliases_of ?S' c = aliases_of ?S c"
      using with_aliases_valid(3)[OF assms va] by blast
    ultimately show ?thesis by blast
  qed
  from absent present show ?thesis by blast
qed

theorem do_unlink_spec_witness:
  "do_unlink ''room'' ''bob'' fresh = (Inr [AliasNotFound ''bob''], fresh)
   \<and> do_unlink ''room'' '' @BOB '' \<lparr>data_file = Holds bob_store, sent = []\<rparr>
       = (Inr [Unbound ''bob''],
          \<lparr>data_file = Holds (JObj [(''room'', JObj [(''aliases'', JObj [])])]), sent = []\<rparr>)"
proof -
  have k1: "norm_alias ''bob'' = ''bob''"
    by (simp add: norm_alias_def lstrip_at_def strip_def py_isspace_def lower_def py_lower_def
        code_point_def)
  have k2: "norm_alias '' @BOB '' = ''bob''"
    by (simp add: norm_alias_def lstrip_at_def strip_def py_isspace_def lower_def py_lower_def
        code_point_def char_of_eq_iff)
  have v1: "valid_store (load_store fresh)"
    by (simp add: load_store_def)
  have v2: "valid_store (load_store \<lparr>data_file = Holds bob_store, sent = []\<rparr>)"
    by (simp add: load_store_def)
  have r1: "do_unlink ''room'' ''bob'' fresh = (Inr [AliasNotFound ''bob''], fresh)"
    using do_unlink_spec[OF v1, of "''room''" "''bob''"]
    by (simp add: k1 load_store_def aliases_of_def)
  have "\<exists>S'. do_unlink ''room'' '' @BOB '' \<lparr>data_file = Holds bob_store, sent = []\<rparr>
          = (Inr [Unbound ''bob''], \<lparr>data_file = Holds S', sent = []\<rparr>)"
    using do_unlink_spec[OF v2, of "''room''" "'' @BOB ''"]
    by (auto simp: k2 load_store_def aliases_of_def)
  then have r2: "do_unlink ''room'' '' @BOB '' \<lparr>data_file = Holds bob_store, sent = []\<rparr>
       = (Inr [Unbound ''bob''],
          \<lparr>data_file = Holds (JObj [(''room'', JObj [(''aliases'', JObj [])])]), sent = []\<rparr>)"
    by (simp add: do_unlink_def k2[unfolded norm_alias_def] load_store_def chat_aliases_def
        and_then_def save_store_def with_aliases_def dict_del_def)
  from r1 r2 show ?thesis by simp
qed

subsection \<open>Link\<close>

lemma valid_record_new_record: "valid_record (new_record sid pu pn t)"
  by (simp add: new_record_def)

lemma valid_aliases_dict_set:
  "valid_aliases (JObj m) \<Longrightarrow> valid_record r \<Longrightarrow> valid_aliases (JObj (dict_set k r m))"
  using list_all_dict_set[of valid_record m r k] by (simp add: distinct_dict_set)

lemma do_link_success:
  assumes key: "api_key svc \<noteq> []"
    and valid: "valid_store (load_store w)"
    and ni: "norm_identifier env svc ident w = (Some sid, w1)"
    and sid: "sid \<noteq> []"
    and gs: "get_summary env svc (JStr sid) w1 = (JObj info, w2)"
    and info: "info \<noteq> []"
    and pu: "py_get (JObj info) ''profileurl'' (JStr []) = Inr pu"
    and pn: "py_get (JObj info) ''personaname'' (JStr []) = Inr pn"
  shows "\<exists>S'. do_link env svc chat a ident w
                = (Inr [Bound (norm_alias a) pn sid], w2\<lparr>data_file := Holds S'\<rparr>)
             \<and> valid_store S'
             \<and> aliases_of S' chat
                = dict_set (norm_alias a) (new_record sid pu pn (now env))
                    (aliases_of (load_store w) chat)
             \<and> (\<forall>c. c \<noteq> chat \<longrightarrow> aliases_of S' c = aliases_of (load_store w) c)"
proof -
  let ?S = "load_store w"
  let ?k = "norm_alias a"
  let ?r = "new_record sid pu pn (now env)"
  let ?m' = "dict_set ?k ?r (aliases_of ?S chat)"
  let ?S' = "with_aliases ?S chat (JObj ?m')"
  have "data_file w2 = data_file w"
    using norm_identifier_file[of env svc ident w] get_summary_file[of env svc "JStr sid" w1]
      ni gs by simp
  then have ld: "load_store w2 = ?S"
    by (rule load_store_file)
  have ca: "chat_aliases ?S chat = Inr (JObj (aliases_of ?S chat))"
    using valid by (rule chat_aliases_valid)
  have lu: "link_update ?S chat ?k sid (JObj info) (now env) = Inr ?S'"
    using pu pn by (simp add: link_update_def and_then_def ca)
  have va: "valid_aliases (JObj ?m')"
    using valid_aliases_of[OF valid, of chat] valid_record_new_record
    by (rule valid_aliases_dict_set)
  have "do_link env svc chat a ident w = (Inr [Bound ?k pn sid], w2\<lparr>data_file := Holds ?S'\<rparr>)"
    using key ni sid gs info pn lu
    by (simp add: do_link_def Let_def ld save_store_def)
  moreover have "valid_store ?S'"
    using valid va by (rule with_aliases_valid(1))
  moreover have "aliases_of ?S' chat = ?m'"
    using valid va by (rule with_aliases_valid(2))
  moreover have "\<forall>c. c \<noteq> chat \<longrightarrow> aliases_of ?S' c = aliases_of ?S c"
    using with_aliases_valid(3)[OF valid va] by blast
  ultimately show ?thesis by blast
qed


lemma norm_alias_no_at: "norm_alias s = c # cs \<Longrightarrow> c \<noteq> CHR ''@''"
proof -
  assume a: "norm_alias s = c # cs"
  then obtain d ds where d: "lstrip_at (strip s) = d # ds" and c: "c = py_lower d"
    by (auto simp: norm_alias_def lower_def)
  from d have "d \<noteq> CHR ''@''"
    unfolding lstrip_at_def using hd_dropWhile[of "\<lambda>c. c = CHR ''@''" "strip s"] by auto
  moreover have "py_lower x = CHR ''@'' \<Longrightarrow> x = CHR ''@''" for x
    by (auto simp: py_lower_def Let_def code_point_def char_of_eq_iff take_bit_eq_mod
        split: if_splits)
  ultimately show ?thesis using c by auto
qed

text \<open>
  C6. \<open>norm_alias\<close> is \<open>strip\<close>, then \<open>lstrip("@")\<close>, then \<open>lower\<close>, so \<open>@Foo\<close>, \<open>foo\<close> and
  \<open> FOO \<close> (with blanks around) all give the key \<open>foo\<close>. A \<open>link\<close> that resolves the
  identifier and fetches a summary stores the new record under the normalized alias of
  the chat, in place of any record that was there, and leaves every other key of the
  chat as it was.
\<close>

theorem alias_normalised_and_upserted:
  assumes "api_key svc \<noteq> []"
    and "valid_store (load_store w)"
    and "norm_identifier env svc ident w = (Some sid, w1)"
    and "sid \<noteq> []"
    and "get_summary env svc (JStr sid) w1 = (JObj info, w2)"
    and "info \<noteq> []"
    and "py_get (JObj info) ''profileurl'' (JStr []) = Inr pu"
    and "py_get (JObj info) ''personaname'' (JStr []) = Inr pn"
  shows "norm_alias ''@Foo'' = ''foo'' \<and> norm_alias ''foo'' = ''foo''
       \<and> norm_alias '' FOO '' = ''foo''
       \<and> norm_alias a = lower (lstrip_at (strip a))
       \<and> (\<exists>S'. do_link env svc chat a ident w
                  = (Inr [Bound (norm_alias a) pn sid], w2\<lparr>data_file := Holds S'\<rparr>)
             \<and> map_of (aliases_of S' chat) (norm_alias a)
                  = Some (new_record sid pu pn (now env))
             \<and> (\<forall>k. k \<noteq> norm_alias a \<longrightarrow>
                   map_of (aliases_of S' chat) k = map_of (aliases_of (load_store w) chat) k))"
proof -
  have e: "norm_alias ''@Foo'' = ''foo''" "norm_alias ''foo'' = ''foo''"
    "norm_alias '' FOO '' = ''foo''"
    by (simp_all add: norm_alias_def lstrip_at_def strip_def py_isspace_def lower_def
        py_lower_def code_point_def char_of_eq_iff)
  from do_link_success[OF assms, of chat a]
  obtain S' where l: "do_link env svc chat a ident w
                  = (Inr [Bound (norm_alias a) pn sid], w2\<lparr>data_file := Holds S'\<rparr>)"
    and m: "aliases_of S' chat
              = dict_set (norm_alias a) (new_record sid pu pn (now env))
                  (aliases_of (load_store w) chat)"
    by blast
  have "map_of (aliases_of S' chat) (norm_alias a) = Some (new_record sid pu pn (now env))"
    by (simp add: m map_of_dict_set)
  moreover have "\<forall>k. k \<noteq> norm_alias a \<longrightarrow>
      map_of (aliases_of S' chat) k = map_of (aliases_of (load_store w) chat) k"
    by (simp add: m map_of_dict_set)
  ultimately show ?thesis
    using e l by (auto simp: norm_alias_def)
qed

text \<open>
  C9, as the code has it. Two \<open>link\<close> commands in a row with the same alias and
  identifier, each resolving the identifier and fetching a summary: after the second
  the chat has exactly one entry for the alias, its record is the one built by the
  second command alone, and its \<open>created_at\<close> is the clock reading of the second
  command, as the \<open>created_at\<close> stored by the first was the clock reading of the first.
  Line 214 reads the clock and compares nothing.
\<close>

theorem link_twice:
  assumes "api_key svc \<noteq> []"
    and "valid_store (load_store w)"
    and "norm_identifier env svc ident w = (Some sid, w1)"
    and "sid \<noteq> []"
    and "get_summary env svc (JStr sid) w1 = (JObj info, w2)"
    and "info \<noteq> []"
    and "py_get (JObj info) ''profileurl'' (JStr []) = Inr pu"
    and "py_get (JObj info) ''personaname'' (JStr []) = Inr pn"
    and "do_link env svc chat a ident w = (r, w')"
    and "norm_identifier env' svc ident w' = (Some sid', w1')"
    and "sid' \<noteq> []"
    and "get_summary env' svc (JStr sid') w1' = (JObj info', w2')"
    and "info' \<noteq> []"
    and "py_get (JObj info') ''profileurl'' (JStr []) = Inr pu'"
    and "py_get (JObj info') ''personaname'' (JStr []) = Inr pn'"
    and "do_link env' svc chat a ident w' = (r', w'')"
  shows "r' = Inr [Bound (norm_alias a) pn' sid']
       \<and> length (filter (\<lambda>p. fst p = norm_alias a) (aliases_of (load_store w'') chat)) = 1
       \<and> map_of (aliases_of (load_store w') chat) (norm_alias a)
           = Some (new_record sid pu pn (now env))
       \<and> map_of (aliases_of (load_store w'') chat) (norm_alias a)
           = Some (new_record sid' pu' pn' (now env'))
       \<and> py_getitem (new_record sid pu pn (now env)) ''created_at'' = Inr (JInt (now env))
       \<and> py_getitem (new_record sid' pu' pn' (now env')) ''created_at'' = Inr (JInt (now env'))"
proof -
  let ?k = "norm_alias a"
  from do_link_success[OF assms(1-8), of chat a] assms(9)
  obtain S' where w': "w' = w2\<lparr>data_file := Holds S'\<rparr>" and v': "valid_store S'"
    and m': "aliases_of S' chat
               = dict_set ?k (new_record sid pu pn (now env)) (aliases_of (load_store w) chat)"
    by auto
  have l': "load_store w' = S'"
    by (simp add: w' load_store_def)
  have v1: "valid_store (load_store w')"
    using v' by (simp add: l')
  from do_link_success[OF assms(1) v1 assms(10-15), of chat a] assms(16)
  obtain S'' where w'': "w'' = w2'\<lparr>data_file := Holds S''\<rparr>"
    and r': "r' = Inr [Bound ?k pn' sid']"
    and m'': "aliases_of S'' chat
               = dict_set ?k (new_record sid' pu' pn' (now env')) (aliases_of S' chat)"
    by (auto simp: l')
  have l'': "load_store w'' = S''"
    by (simp add: w'' load_store_def)
  have "distinct (map fst (aliases_of S' chat))"
    using valid_aliases_of[OF v', of chat] by simp
  then have one: "length (filter (\<lambda>p. fst p = ?k) (aliases_of S'' chat)) = 1"
    unfolding m'' by (rule count_dict_set)
  have first: "map_of (aliases_of S' chat) ?k = Some (new_record sid pu pn (now env))"
    by (simp add: m' map_of_dict_set)
  have second: "map_of (aliases_of S'' chat) ?k = Some (new_record sid' pu' pn' (now env'))"
    by (simp add: m'' map_of_dict_set)
  show ?thesis
    using r' one first second
    by (simp add: l' l'' new_record_def)
qed

lemma get_summary_answering:
  "get_summary (answering t) \<lparr>api_key = ''KEY''\<rparr> sid w
   = (JObj [(''personaname'', JStr ''Bob''), (''personastate'', JInt 1)],
      w\<lparr>sent := sent w @ [GetPlayerSummaries ''KEY'' sid]\<rparr>)"
  by (simp add: get_summary_def first_player_def)

lemma norm_alias_bob: "norm_alias '' @BOB '' = ''bob''"
  by (simp add: norm_alias_def lstrip_at_def strip_def py_isspace_def lower_def py_lower_def
      code_point_def char_of_eq_iff)

theorem alias_normalised_and_upserted_witness:
  "do_link (answering 100) \<lparr>api_key = ''KEY''\<rparr> ''room'' '' @BOB '' ''1''
       \<lparr>data_file = Holds bob_store, sent = []\<rparr>
     = (Inr [Bound ''bob'' (JStr ''Bob'') ''76561197960265729''],
        \<lparr>data_file = Holds (JObj [(''room'', JObj [(''aliases'', JObj [(''bob'',
             new_record ''76561197960265729'' (JStr []) (JStr ''Bob'') 100)])])]),
         sent = [GetPlayerSummaries ''KEY'' (JStr ''76561197960265729'')]\<rparr>)
   \<and> (\<exists>S'. do_link (answering 100) \<lparr>api_key = ''KEY''\<rparr> ''room'' '' @BOB '' ''1''
              \<lparr>data_file = Holds bob_store, sent = []\<rparr>
            = (Inr [Bound ''bob'' (JStr ''Bob'') ''76561197960265729''],
               \<lparr>data_file = Holds S',
                sent = [GetPlayerSummaries ''KEY'' (JStr ''76561197960265729'')]\<rparr>)
          \<and> map_of (aliases_of S' ''room'') ''bob''
              = Some (new_record ''76561197960265729'' (JStr []) (JStr ''Bob'') 100))"
proof -
  let ?w = "\<lparr>data_file = Holds bob_store, sent = []\<rparr>"
  let ?svc = "\<lparr>api_key = ''KEY''\<rparr>"
  have k: "api_key ?svc \<noteq> []" by simp
  have v: "valid_store (load_store ?w)"
    by (simp add: load_store_def)
  have n: "norm_identifier (answering 100) ?svc ''1'' ?w = (Some ''76561197960265729'', ?w)"
    by (rule norm_identifier_one)
  have s: "''76561197960265729'' \<noteq> []" by simp
  have g: "get_summary (answering 100) ?svc (JStr ''76561197960265729'') ?w
      = (JObj [(''personaname'', JStr ''Bob''), (''personastate'', JInt 1)],
         ?w\<lparr>sent := sent ?w @ [GetPlayerSummaries ''KEY'' (JStr ''76561197960265729'')]\<rparr>)"
    by (rule get_summary_answering)
  have i: "[(''personaname'', JStr ''Bob''), (''personastate'', JInt 1)] \<noteq> []" by simp
  have pu: "py_get (JObj [(''personaname'', JStr ''Bob''), (''personastate'', JInt 1)])
              ''profileurl'' (JStr []) = Inr (JStr [])" by simp
  have pn: "py_get (JObj [(''personaname'', JStr ''Bob''), (''personastate'', JInt 1)])
              ''personaname'' (JStr []) = Inr (JStr ''Bob'')" by simp
  have run: "do_link (answering 100) ?svc ''room'' '' @BOB '' ''1'' ?w
     = (Inr [Bound ''bob'' (JStr ''Bob'') ''76561197960265729''],
        \<lparr>data_file = Holds (JObj [(''room'', JObj [(''aliases'', JObj [(''bob'',
             new_record ''76561197960265729'' (JStr []) (JStr ''Bob'') 100)])])]),
         sent = [GetPlayerSummaries ''KEY'' (JStr ''76561197960265729'')]\<rparr>)"
    by (simp add: do_link_def norm_alias_bob n g link_update_def chat_aliases_def and_then_def
        load_store_def with_aliases_def save_store_def Let_def)
  show ?thesis
    using alias_normalised_and_upserted[OF k v n s g i pu pn,
        where chat = "''room''" and a = "'' @BOB ''"] run
    by (auto simp: norm_alias_bob)
qed


lemma norm_alias_Bob: "norm_alias ''Bob'' = ''bob''"
  by (simp add: norm_alias_def lstrip_at_def strip_def py_isspace_def lower_def py_lower_def
      code_point_def char_of_eq_iff)

text \<open>
  \<open>link Bob 1\<close> in the chat \<open>room\<close> at clock \<open>t\<close>: on no file, and on the store a
  former such command at clock \<open>t0\<close> has left.
\<close>

lemma link_bob_first:
  "do_link (answering t) \<lparr>api_key = ''KEY''\<rparr> ''room'' ''Bob'' ''1'' fresh
   = (Inr [Bound ''bob'' (JStr ''Bob'') ''76561197960265729''],
      \<lparr>data_file = Holds (JObj [(''room'', JObj [(''aliases'', JObj [(''bob'',
           new_record ''76561197960265729'' (JStr []) (JStr ''Bob'') t)])])]),
       sent = [GetPlayerSummaries ''KEY'' (JStr ''76561197960265729'')]\<rparr>)"
  by (simp add: do_link_def norm_alias_Bob norm_identifier_one get_summary_answering
      link_update_def chat_aliases_def and_then_def load_store_def with_aliases_def
      save_store_def Let_def)

lemma link_bob_again:
  "do_link (answering t) \<lparr>api_key = ''KEY''\<rparr> ''room'' ''Bob'' ''1''
     \<lparr>data_file = Holds (JObj [(''room'', JObj [(''aliases'', JObj [(''bob'',
           new_record ''76561197960265729'' (JStr []) (JStr ''Bob'') t0)])])]),
       sent = [GetPlayerSummaries ''KEY'' (JStr ''76561197960265729'')]\<rparr>
   = (Inr [Bound ''bob'' (JStr ''Bob'') ''76561197960265729''],
      \<lparr>data_file = Holds (JObj [(''room'', JObj [(''aliases'', JObj [(''bob'',
           new_record ''76561197960265729'' (JStr []) (JStr ''Bob'') t)])])]),
       sent = [GetPlayerSummaries ''KEY'' (JStr ''76561197960265729''),
               GetPlayerSummaries ''KEY'' (JStr ''76561197960265729'')]\<rparr>)"
  by (simp add: do_link_def norm_alias_Bob norm_identifier_one get_summary_answering
      link_update_def chat_aliases_def and_then_def load_store_def with_aliases_def
      save_store_def Let_def)

theorem link_twice_witness:
  "snd (do_link (answering 200) \<lparr>api_key = ''KEY''\<rparr> ''room'' ''Bob'' ''1''
         (snd (do_link (answering 100) \<lparr>api_key = ''KEY''\<rparr> ''room'' ''Bob'' ''1'' fresh)))
     = \<lparr>data_file = Holds (JObj [(''room'', JObj [(''aliases'', JObj [(''bob'',
             new_record ''76561197960265729'' (JStr []) (JStr ''Bob'') 200)])])]),
        sent = [GetPlayerSummaries ''KEY'' (JStr ''76561197960265729''),
                GetPlayerSummaries ''KEY'' (JStr ''76561197960265729'')]\<rparr>
   \<and> length (filter (\<lambda>p. fst p = norm_alias ''Bob'')
        (aliases_of (load_store
          (snd (do_link (answering 200) \<lparr>api_key = ''KEY''\<rparr> ''room'' ''Bob'' ''1''
            (snd (do_link (answering 100) \<lparr>api_key = ''KEY''\<rparr> ''room'' ''Bob'' ''1'' fresh)))))
          ''room'')) = 1"
proof -
  let ?svc = "\<lparr>api_key = ''KEY''\<rparr>"
  let ?rq = "GetPlayerSummaries ''KEY'' (JStr ''76561197960265729'')"
  let ?info = "[(''personaname'', JStr ''Bob''), (''personastate'', JInt 1)]"
  have k: "api_key ?svc \<noteq> []" by simp
  have v: "valid_store (load_store fresh)"
    by (simp add: load_store_def)
  have n: "norm_identifier (answering t) ?svc ''1'' w = (Some ''76561197960265729'', w)" for t w
    by (rule norm_identifier_one)
  have s: "''76561197960265729'' \<noteq> []" by simp
  have g: "get_summary (answering t) ?svc (JStr ''76561197960265729'') w
      = (JObj ?info, w\<lparr>sent := sent w @ [?rq]\<rparr>)" for t w
    by (rule get_summary_answering)
  have i: "?info \<noteq> []" by simp
  have pu: "py_get (JObj ?info) ''profileurl'' (JStr []) = Inr (JStr [])" by simp
  have pn: "py_get (JObj ?info) ''personaname'' (JStr []) = Inr (JStr ''Bob'')" by simp
  let ?w' = "snd (do_link (answering 100) ?svc ''room'' ''Bob'' ''1'' fresh)"
  have r1: "do_link (answering 100) ?svc ''room'' ''Bob'' ''1'' fresh
              = (fst (do_link (answering 100) ?svc ''room'' ''Bob'' ''1'' fresh), ?w')"
    by simp
  have r2: "do_link (answering 200) ?svc ''room'' ''Bob'' ''1'' ?w'
              = (fst (do_link (answering 200) ?svc ''room'' ''Bob'' ''1'' ?w'),
                 snd (do_link (answering 200) ?svc ''room'' ''Bob'' ''1'' ?w'))"
    by simp
  show ?thesis
    using link_twice[OF k v n[of 100 fresh] s g[of 100 fresh] i pu pn r1
        n[of 200 ?w'] s g[of 200 ?w'] i pu pn r2]
    by (simp add: link_bob_first link_bob_again[where t = 200 and ?t0.0 = 100] norm_alias_Bob)
qed

theorem link_twice_clock_back_counterexample:
  "snd (do_link (answering 200) \<lparr>api_key = ''KEY''\<rparr> ''room'' ''Bob'' ''1'' fresh)
     = \<lparr>data_file = Holds (JObj [(''room'', JObj [(''aliases'', JObj [(''bob'',
             new_record ''76561197960265729'' (JStr []) (JStr ''Bob'') 200)])])]),
        sent = [GetPlayerSummaries ''KEY'' (JStr ''76561197960265729'')]\<rparr>
   \<and> snd (do_link (answering 100) \<lparr>api_key = ''KEY''\<rparr> ''room'' ''Bob'' ''1''
         (snd (do_link (answering 200) \<lparr>api_key = ''KEY''\<rparr> ''room'' ''Bob'' ''1'' fresh)))
     = \<lparr>data_file = Holds (JObj [(''room'', JObj [(''aliases'', JObj [(''bob'',
             new_record ''76561197960265729'' (JStr []) (JStr ''Bob'') 100)])])]),
        sent = [GetPlayerSummaries ''KEY'' (JStr ''76561197960265729''),
                GetPlayerSummaries ''KEY'' (JStr ''76561197960265729'')]\<rparr>
   \<and> py_getitem (new_record ''76561197960265729'' (JStr []) (JStr ''Bob'') 200) ''created_at''
       = Inr (JInt 200)
   \<and> py_getitem (new_record ''76561197960265729'' (JStr []) (JStr ''Bob'') 100) ''created_at''
       = Inr (JInt 100)
   \<and> (100::int) < 200"
proof -
  have c: "py_getitem (new_record sid pu pn t) ''created_at'' = Inr (JInt t)" for sid pu pn t
    by (simp add: new_record_def)
  show ?thesis
    by (simp add: link_bob_first link_bob_again c)
qed

subsection \<open>Status\<close>

lemma do_status_via_status_of:
  "(\<exists>e. do_status env svc chat target w = (Inl e, w)) \<or>
   (\<exists>sid w1. do_status env svc chat target w = status_of env svc target sid w1
      \<and> data_file w1 = data_file w)"
proof -
  obtain found w1 where ni: "norm_identifier env svc target w = (found, w1)"
    by (cases "norm_identifier env svc target w")
  then have "data_file w1 = data_file w"
    using norm_identifier_file[of env svc target w] by simp
  then show ?thesis
    using ni by (auto simp: do_status_def status_sid_def split: sum.splits)
qed

lemma status_of_sent:
  "sent (snd (status_of env svc target sid w)) = sent w \<or>
   sent (snd (status_of env svc target sid w)) = sent w @ [GetPlayerSummaries (api_key svc) sid]"
  using get_summary_sent[of env svc sid w]
  by (auto simp: status_of_def split: prod.splits)

lemma valid_record_steamid:
  "valid_record r \<Longrightarrow> truthy r \<and> (\<exists>sid. py_getitem r ''steamid'' = Inr sid)"
  by (cases r) auto

text \<open>
  C8. On a store of the persisted shape: when the normalized target is bound in the
  chat, the \<open>sid\<close> of \<open>do_status\<close> is the \<open>steamid\<close> of the stored record and the world
  is still the one it started in, so that no vanity request is sent and the only request
  possible is the summaries request for that id; when it is not bound, the \<open>sid\<close> is
  what \<open>norm_identifier\<close> makes of the raw target.
\<close>

theorem status_alias_first:
  assumes "valid_store (load_store w)"
  shows "(\<forall>rec. map_of (aliases_of (load_store w) chat) (norm_alias target) = Some rec \<longrightarrow>
            (\<exists>sid. py_getitem rec ''steamid'' = Inr sid
               \<and> status_sid env svc chat target w = (Inr sid, w)
               \<and> do_status env svc chat target w = status_of env svc target sid w
               \<and> (sent (snd (do_status env svc chat target w)) = sent w \<or>
                  sent (snd (do_status env svc chat target w))
                    = sent w @ [GetPlayerSummaries (api_key svc) sid])))
       \<and> (map_of (aliases_of (load_store w) chat) (norm_alias target) = None \<longrightarrow>
            status_sid env svc chat target w
              = (Inr (json_of_result (fst (norm_identifier env svc target w))),
                 snd (norm_identifier env svc target w))
            \<and> do_status env svc chat target w
              = status_of env svc target
                  (json_of_result (fst (norm_identifier env svc target w)))
                  (snd (norm_identifier env svc target w)))"
proof -
  let ?m = "aliases_of (load_store w) chat"
  let ?k = "norm_alias target"
  have ca: "chat_aliases (load_store w) chat = Inr (JObj ?m)"
    using assms by (rule chat_aliases_valid)
  have bound: "\<exists>sid. py_getitem rec ''steamid'' = Inr sid
               \<and> status_sid env svc chat target w = (Inr sid, w)
               \<and> do_status env svc chat target w = status_of env svc target sid w
               \<and> (sent (snd (do_status env svc chat target w)) = sent w \<or>
                  sent (snd (do_status env svc chat target w))
                    = sent w @ [GetPlayerSummaries (api_key svc) sid])"
    if "map_of ?m ?k = Some rec" for rec
  proof -
    have "list_all (\<lambda>p. valid_record (snd p)) ?m"
      using valid_aliases_of[OF assms, of chat] by simp
    then have "valid_record rec"
      using that by (rule list_all_map_of)
    then obtain sid where t: "truthy rec" and s: "py_getitem rec ''steamid'' = Inr sid"
      using valid_record_steamid by blast
    have "status_sid env svc chat target w = (Inr sid, w)"
      using that t s by (simp add: status_sid_def ca and_then_def)
    then show ?thesis
      using s status_of_sent[of env svc target sid w] by (simp add: do_status_def)
  qed
  have unbound: "status_sid env svc chat target w
      = (Inr (json_of_result (fst (norm_identifier env svc target w))),
         snd (norm_identifier env svc target w))
    \<and> do_status env svc chat target w
      = status_of env svc target
          (json_of_result (fst (norm_identifier env svc target w)))
          (snd (norm_identifier env svc target w))"
    if "map_of ?m ?k = None"
    using that by (simp add: do_status_def status_sid_def ca and_then_def split: prod.splits)
  from bound unbound show ?thesis by blast
qed

text \<open>
  C10. When \<open>do_status\<close> has a truthy \<open>sid\<close> and the summary fetched for it is a non-empty
  dict without \<open>personastate\<close>, the reply is the
  player line, the line saying that the state cannot be determined, then the profile URL
  if it is there (truthy) and the privacy caveat unless the visibility is 3; it has no
  line of the persona-state table.
\<close>

theorem status_without_personastate:
  assumes "status_sid env svc chat target w = (Inr sid, w1)"
    and "truthy sid"
    and "get_summary env svc sid w1 = (JObj info, w')"
    and "info \<noteq> []"
    and "map_of info ''personastate'' = None"
    and "py_get (JObj info) ''profileurl'' JNull = Inr url"
    and "py_get (JObj info) ''communityvisibilitystate'' JNull = Inr vis"
  shows "do_status env svc chat target w
           = (Inr ([Player (map_of info ''personaname'') sid, StateUndetermined]
                   @ (if truthy url then [ProfileUrl url] else [])
                   @ (if py_eq_int vis 3 then [] else [StatusPrivacy])), w')
       \<and> (\<forall>ls t. fst (do_status env svc chat target w) = Inr ls \<longrightarrow> State t \<notin> set ls)"
proof -
  have "status_lines sid (JObj info)
          = Inr ([Player (map_of info ''personaname'') sid, StateUndetermined]
                   @ (if truthy url then [ProfileUrl url] else [])
                   @ (if py_eq_int vis 3 then [] else [StatusPrivacy]))"
    using assms(5-7) by (simp add: status_lines_def and_then_def)
  then have "do_status env svc chat target w
           = (Inr ([Player (map_of info ''personaname'') sid, StateUndetermined]
                   @ (if truthy url then [ProfileUrl url] else [])
                   @ (if py_eq_int vis 3 then [] else [StatusPrivacy])), w')"
    using assms(1-4) by (simp add: do_status_def status_of_def)
  then show ?thesis by auto
qed

lemma PERSONA_STATE_closed: "map_of PERSONA_STATE c = None \<longleftrightarrow> c < 0 \<or> 6 < c"
  by (auto simp: PERSONA_STATE_def)

text \<open>
  C7, as the code has it. When \<open>do_status\<close> has a truthy \<open>sid\<close> and the summary fetched
  for it is a non-empty dict whose \<open>personastate\<close> is the int \<open>c\<close>, the reply has one state
  line, with the label of \<open>c\<close> in the table for the codes 0 to 6 and the unknown-state
  text of \<open>c\<close> for every other code; a last-logoff line is there exactly when \<open>c\<close> is 0
  and the \<open>lastlogoff\<close> value is truthy (present, not null, not 0, not empty), and it
  shows that value; a current-game line is there exactly when \<open>gameextrainfo\<close> is
  truthy, and it shows that value.
\<close>

theorem status_with_personastate:
  assumes "status_sid env svc chat target w = (Inr sid, w1)"
    and "truthy sid"
    and "get_summary env svc sid w1 = (JObj info, w')"
    and "info \<noteq> []"
    and "map_of info ''personastate'' = Some (JInt c)"
    and "py_get (JObj info) ''gameextrainfo'' JNull = Inr game"
    and "py_get (JObj info) ''lastlogoff'' JNull = Inr logoff"
  shows "\<exists>ls. do_status env svc chat target w = (Inr ls, w')
           \<and> (\<forall>t. State t \<in> set ls \<longleftrightarrow>
                 t = (case map_of PERSONA_STATE c of
                        Some l \<Rightarrow> Label l
                      | None \<Rightarrow> UnknownState (JInt c)))
           \<and> (map_of PERSONA_STATE c = None \<longleftrightarrow> c < 0 \<or> 6 < c)
           \<and> (\<forall>v. LastLogoff v \<in> set ls \<longleftrightarrow> c = 0 \<and> truthy logoff \<and> v = logoff)
           \<and> (\<forall>g. CurrentGame g \<in> set ls \<longleftrightarrow> truthy game \<and> g = game)"
proof -
  obtain url vis where u: "py_get (JObj info) ''profileurl'' JNull = Inr url"
    and v: "py_get (JObj info) ''communityvisibilitystate'' JNull = Inr vis"
    by simp
  let ?text = "case map_of PERSONA_STATE c of Some l \<Rightarrow> Label l | None \<Rightarrow> UnknownState (JInt c)"
  let ?ls = "[Player (map_of info ''personaname'') sid, State ?text]
             @ (if truthy game then [CurrentGame game] else [])
             @ (if c = 0 \<and> truthy logoff then [LastLogoff logoff] else [])
             @ (if truthy url then [ProfileUrl url] else [])
             @ (if py_eq_int vis 3 then [] else [StatusPrivacy])"
  have "status_lines sid (JObj info) = Inr ?ls"
    using assms(5-7) u v by (simp add: status_lines_def and_then_def)
  then have run: "do_status env svc chat target w = (Inr ?ls, w')"
    using assms(1-4) by (simp add: do_status_def status_of_def)
  have st: "\<forall>t. State t \<in> set ?ls \<longleftrightarrow> t = ?text" by auto
  have lo: "\<forall>v. LastLogoff v \<in> set ?ls \<longleftrightarrow> c = 0 \<and> truthy logoff \<and> v = logoff" by auto
  have cg: "\<forall>g. CurrentGame g \<in> set ?ls \<longleftrightarrow> truthy game \<and> g = game" by auto
  show ?thesis
    by (intro exI[of _ ?ls] conjI run st lo cg PERSONA_STATE_closed)
qed



subsection \<open>Concrete status runs\<close>

lemma get_summary_replying:
  "get_summary (replying p) \<lparr>api_key = ''KEY''\<rparr> sid w
   = (p, w\<lparr>sent := sent w @ [GetPlayerSummaries ''KEY'' sid]\<rparr>)"
  by (simp add: get_summary_def first_player_def)

lemma norm_alias_one: "norm_alias ''1'' = ''1''"
  by (simp add: norm_alias_def lstrip_at_def strip_def py_isspace_def lower_def py_lower_def
      code_point_def)

lemma status_sid_one:
  "status_sid env svc ''room'' ''1'' fresh = (Inr (JStr ''76561197960265729''), fresh)"
  by (simp add: status_sid_def chat_aliases_def and_then_def load_store_def norm_alias_one
      norm_identifier_one)

theorem status_alias_first_witness:
  "do_status silent \<lparr>api_key = ''KEY''\<rparr> ''room'' ''1'' \<lparr>data_file = Holds one_store, sent = []\<rparr>
     = (Inr [FetchFailed (JStr ''76561197960265730'')],
        \<lparr>data_file = Holds one_store,
         sent = [GetPlayerSummaries ''KEY'' (JStr ''76561197960265730'')]\<rparr>)
   \<and> do_status silent \<lparr>api_key = ''KEY''\<rparr> ''room'' ''1'' fresh
     = (Inr [FetchFailed (JStr ''76561197960265729'')],
        \<lparr>data_file = Absent,
         sent = [GetPlayerSummaries ''KEY'' (JStr ''76561197960265729'')]\<rparr>)"
proof -
  let ?svc = "\<lparr>api_key = ''KEY''\<rparr>"
  let ?w = "\<lparr>data_file = Holds one_store, sent = []\<rparr>"
  have v1: "valid_store (load_store ?w)"
    by (simp add: load_store_def)
  have v2: "valid_store (load_store fresh)"
    by (simp add: load_store_def)
  have b: "map_of (aliases_of (load_store ?w) ''room'') (norm_alias ''1'')
             = Some (JObj [(''steamid'', JStr ''76561197960265730'')])"
    by (simp add: load_store_def aliases_of_def norm_alias_one)
  have u: "map_of (aliases_of (load_store fresh) ''room'') (norm_alias ''1'') = None"
    by (simp add: load_store_def aliases_of_def)
  have s1: "status_of silent ?svc ''1'' (JStr ''76561197960265730'') ?w
     = (Inr [FetchFailed (JStr ''76561197960265730'')],
        \<lparr>data_file = Holds one_store,
         sent = [GetPlayerSummaries ''KEY'' (JStr ''76561197960265730'')]\<rparr>)"
    by (simp add: status_of_def get_summary_def)
  have s2: "status_of silent ?svc ''1'' (JStr ''76561197960265729'') fresh
     = (Inr [FetchFailed (JStr ''76561197960265729'')],
        \<lparr>data_file = Absent,
         sent = [GetPlayerSummaries ''KEY'' (JStr ''76561197960265729'')]\<rparr>)"
    by (simp add: status_of_def get_summary_def)
  show ?thesis
    using status_alias_first[OF v1, where chat = "''room''" and target = "''1''"
        and env = silent and svc = ?svc]
      status_alias_first[OF v2, where chat = "''room''" and target = "''1''"
        and env = silent and svc = ?svc]
      b u s1 s2
    by (simp add: norm_identifier_one)
qed

theorem status_without_personastate_witness:
  "do_status (replying (JObj [(''personaname'', JStr ''Bob''), (''profileurl'', JStr ''u'')]))
       \<lparr>api_key = ''KEY''\<rparr> ''room'' ''1'' fresh
     = (Inr [Player (Some (JStr ''Bob'')) (JStr ''76561197960265729''), StateUndetermined,
             ProfileUrl (JStr ''u''), StatusPrivacy],
        \<lparr>data_file = Absent,
         sent = [GetPlayerSummaries ''KEY'' (JStr ''76561197960265729'')]\<rparr>)"
proof -
  let ?info = "[(''personaname'', JStr ''Bob''), (''profileurl'', JStr ''u'')]"
  have t: "truthy (JStr ''76561197960265729'')" by simp
  have g: "get_summary (replying (JObj ?info)) \<lparr>api_key = ''KEY''\<rparr>
             (JStr ''76561197960265729'') fresh
           = (JObj ?info, fresh\<lparr>sent := sent fresh
                @ [GetPlayerSummaries ''KEY'' (JStr ''76561197960265729'')]\<rparr>)"
    by (rule get_summary_replying)
  have i: "?info \<noteq> []" by simp
  have p: "map_of ?info ''personastate'' = None" by simp
  have u: "py_get (JObj ?info) ''profileurl'' JNull = Inr (JStr ''u'')" by simp
  have v: "py_get (JObj ?info) ''communityvisibilitystate'' JNull = Inr JNull" by simp
  show ?thesis
    using status_without_personastate[OF status_sid_one t g i p u v]
    by simp
qed

theorem status_with_personastate_witness:
  "do_status (replying (JObj [(''personastate'', JInt 0), (''lastlogoff'', JInt 1700000000)]))
       \<lparr>api_key = ''KEY''\<rparr> ''room'' ''1'' fresh
     = (Inr [Player None (JStr ''76561197960265729''), State (Label Offline),
             LastLogoff (JInt 1700000000), StatusPrivacy],
        \<lparr>data_file = Absent,
         sent = [GetPlayerSummaries ''KEY'' (JStr ''76561197960265729'')]\<rparr>)
   \<and> (\<exists>ls. fst (do_status (replying (JObj [(''personastate'', JInt 0),
                                           (''lastlogoff'', JInt 1700000000)]))
                 \<lparr>api_key = ''KEY''\<rparr> ''room'' ''1'' fresh) = Inr ls
          \<and> LastLogoff (JInt 1700000000) \<in> set ls)
   \<and> do_status (answering 0) \<lparr>api_key = ''KEY''\<rparr> ''room'' ''1'' fresh
     = (Inr [Player (Some (JStr ''Bob'')) (JStr ''76561197960265729''), State (Label Online),
             StatusPrivacy],
        \<lparr>data_file = Absent,
         sent = [GetPlayerSummaries ''KEY'' (JStr ''76561197960265729'')]\<rparr>)"
proof -
  let ?info = "[(''personastate'', JInt 0), (''lastlogoff'', JInt 1700000000)]"
  let ?svc = "\<lparr>api_key = ''KEY''\<rparr>"
  have t: "truthy (JStr ''76561197960265729'')" by simp
  have g: "get_summary (replying (JObj ?info)) ?svc (JStr ''76561197960265729'') fresh
           = (JObj ?info, fresh\<lparr>sent := sent fresh
                @ [GetPlayerSummaries ''KEY'' (JStr ''76561197960265729'')]\<rparr>)"
    by (rule get_summary_replying)
  have i: "?info \<noteq> []" by simp
  have p: "map_of ?info ''personastate'' = Some (JInt 0)" by simp
  have gm: "py_get (JObj ?info) ''gameextrainfo'' JNull = Inr JNull" by simp
  have lo: "py_get (JObj ?info) ''lastlogoff'' JNull = Inr (JInt 1700000000)" by simp
  have run: "do_status (replying (JObj ?info)) ?svc ''room'' ''1'' fresh
     = (Inr [Player None (JStr ''76561197960265729''), State (Label Offline),
             LastLogoff (JInt 1700000000), StatusPrivacy],
        \<lparr>data_file = Absent,
         sent = [GetPlayerSummaries ''KEY'' (JStr ''76561197960265729'')]\<rparr>)"
    by (simp add: do_status_def status_sid_one status_of_def g status_lines_def and_then_def
        PERSONA_STATE_def)
  have run1: "do_status (answering 0) ?svc ''room'' ''1'' fresh
     = (Inr [Player (Some (JStr ''Bob'')) (JStr ''76561197960265729''), State (Label Online),
             StatusPrivacy],
        \<lparr>data_file = Absent,
         sent = [GetPlayerSummaries ''KEY'' (JStr ''76561197960265729'')]\<rparr>)"
    by (simp add: do_status_def status_sid_one status_of_def get_summary_def first_player_def
        status_lines_def and_then_def PERSONA_STATE_def)
  from status_with_personastate[OF status_sid_one t g i p gm lo]
  obtain ls where "do_status (replying (JObj ?info)) ?svc ''room'' ''1'' fresh
               = (Inr ls, fresh\<lparr>sent := sent fresh
                    @ [GetPlayerSummaries ''KEY'' (JStr ''76561197960265729'')]\<rparr>)"
    and "\<forall>v. LastLogoff v \<in> set ls \<longleftrightarrow> (0::int) = 0 \<and> truthy (JInt 1700000000)
                \<and> v = JInt 1700000000"
    by blast
  then have "\<exists>ls. fst (do_status (replying (JObj ?info)) ?svc ''room'' ''1'' fresh) = Inr ls
          \<and> LastLogoff (JInt 1700000000) \<in> set ls"
    by simp
  with run run1 show ?thesis by simp
qed

theorem status_present_but_falsy_counterexample:
  "map_of [(''personastate'', JInt 0), (''lastlogoff'', JInt 0), (''gameextrainfo'', JStr [])]
       ''lastlogoff'' = Some (JInt 0)
   \<and> map_of [(''personastate'', JInt 0), (''lastlogoff'', JInt 0), (''gameextrainfo'', JStr [])]
       ''gameextrainfo'' = Some (JStr [])
   \<and> do_status
       (replying (JObj [(''personastate'', JInt 0), (''lastlogoff'', JInt 0),
                        (''gameextrainfo'', JStr [])]))
       \<lparr>api_key = ''KEY''\<rparr> ''room'' ''1'' fresh
     = (Inr [Player None (JStr ''76561197960265729''), State (Label Offline), StatusPrivacy],
        \<lparr>data_file = Absent,
         sent = [GetPlayerSummaries ''KEY'' (JStr ''76561197960265729'')]\<rparr>)"
  by (simp add: do_status_def status_sid_one status_of_def get_summary_replying
      status_lines_def and_then_def PERSONA_STATE_def)

subsection \<open>The shape of the store is kept\<close>

lemma link_update_valid:
  assumes "valid_store S" and "link_update S chat k sid info t = Inr S'"
  shows "valid_store S'"
proof -
  have ca: "chat_aliases S chat = Inr (JObj (aliases_of S chat))"
    using assms(1) by (rule chat_aliases_valid)
  from assms(2) obtain pu pn where
    S': "S' = with_aliases S chat (JObj (dict_set k (new_record sid pu pn t) (aliases_of S chat)))"
    by (auto simp: link_update_def and_then_def ca split: sum.splits)
  have "valid_aliases (JObj (dict_set k (new_record sid pu pn t) (aliases_of S chat)))"
    using valid_aliases_of[OF assms(1), of chat] valid_record_new_record
    by (rule valid_aliases_dict_set)
  with assms(1) show ?thesis
    unfolding S' by (rule with_aliases_valid(1))
qed

lemma do_link_valid:
  assumes "valid_store (load_store w)"
  shows "valid_store (load_store (snd (do_link env svc chat a ident w)))"
proof -
  obtain found w1 where ni: "norm_identifier env svc ident w = (found, w1)"
    by (cases "norm_identifier env svc ident w")
  then have f1: "load_store w1 = load_store w"
    using norm_identifier_file[of env svc ident w] by (simp add: load_store_def)
  show ?thesis
  proof (cases "api_key svc = [] \<or> found = None \<or> found = Some []")
    case True
    then show ?thesis
      using assms ni f1 by (auto simp: do_link_def)
  next
    case False
    then obtain sid where sid: "found = Some sid" "sid \<noteq> []" and key: "api_key svc \<noteq> []"
      by (cases found) auto
    obtain info w2 where gs: "get_summary env svc (JStr sid) w1 = (info, w2)"
      by (cases "get_summary env svc (JStr sid) w1")
    then have f2: "load_store w2 = load_store w"
      using get_summary_file[of env svc "JStr sid" w1] f1 by (simp add: load_store_def)
    show ?thesis
    proof (cases "link_update (load_store w) chat (norm_alias a) sid info (now env)")
      case (Inl e)
      then show ?thesis
        using assms key ni sid gs f2 by (simp add: do_link_def Let_def)
    next
      case (Inr S')
      with assms have "valid_store S'"
        by (rule link_update_valid)
      then show ?thesis
        using assms key ni sid gs f2 Inr
        by (simp add: do_link_def Let_def save_store_def load_store_def split: sum.splits)
    qed
  qed
qed

lemma do_unlink_valid:
  assumes "valid_store (load_store w)"
  shows "valid_store (load_store (snd (do_unlink chat a w)))"
proof -
  let ?S = "load_store w"
  let ?k = "lower (lstrip_at (strip a))"
  let ?m = "aliases_of ?S chat"
  have ca: "chat_aliases ?S chat = Inr (JObj ?m)"
    using assms by (rule chat_aliases_valid)
  show ?thesis
  proof (cases "map_of ?m ?k = None")
    case True
    then have "do_unlink chat a w = (Inr [AliasNotFound ?k], w)"
      by (simp add: do_unlink_def Let_def ca)
    with assms show ?thesis by simp
  next
    case False
    let ?S' = "with_aliases ?S chat (JObj (dict_del ?k ?m))"
    have "valid_aliases (JObj (dict_del ?k ?m))"
      using valid_aliases_of[OF assms, of chat] by (rule valid_aliases_dict_del)
    with assms have "valid_store ?S'"
      by (rule with_aliases_valid(1))
    moreover have "do_unlink chat a w = (Inr [Unbound ?k], save_store ?S' w)"
      using False by (simp add: do_unlink_def Let_def ca)
    moreover have "load_store (save_store ?S' w) = ?S'"
      by (simp add: save_store_def load_store_def)
    ultimately show ?thesis by simp
  qed
qed

lemma do_list_world: "snd (do_list chat w) = w"
  by (simp add: do_list_def split: sum.splits json.splits)

lemma get_summary_fileD:
  "get_summary env svc sid w = (info, w') \<Longrightarrow> data_file w' = data_file w"
  using get_summary_file[of env svc sid w] by simp

lemma do_whois_file: "data_file (snd (do_whois env svc chat a w)) = data_file w"
  by (auto simp: do_whois_def Let_def split: sum.splits prod.splits dest: get_summary_fileD)

lemma status_of_file: "data_file (snd (status_of env svc target sid w)) = data_file w"
  using get_summary_file[of env svc sid w]
  by (auto simp: status_of_def split: prod.splits)

lemma do_status_file: "data_file (snd (do_status env svc chat target w)) = data_file w"
  using do_status_via_status_of[of env svc chat target w] status_of_file[of env svc target]
  by auto

lemma reachable_valid: "reachable w \<Longrightarrow> valid_store (load_store w)"
proof (induction rule: reachable.induct)
  case (first w)
  then show ?case by (auto simp: load_store_def)
next
  case (link w env svc chat alias0 ident)
  then show ?case by (simp add: do_link_valid)
next
  case (unlink w chat alias0)
  then show ?case by (simp add: do_unlink_valid)
next
  case (list w chat)
  then show ?case by (simp add: do_list_world)
next
  case (whois w env svc chat alias0)
  then show ?case
    using load_store_file[OF do_whois_file[of env svc chat alias0 w]] by simp
next
  case (status w env svc chat target)
  then show ?case
    using load_store_file[OF do_status_file[of env svc chat target w]] by simp
qed

subsection \<open>Without a key on a store of the persisted shape\<close>

lemma status_sid_valid:
  assumes "valid_store (load_store w)"
  shows "\<exists>sid w1. status_sid env svc chat target w = (Inr sid, w1)"
proof -
  let ?m = "aliases_of (load_store w) chat"
  have ca: "chat_aliases (load_store w) chat = Inr (JObj ?m)"
    using assms by (rule chat_aliases_valid)
  show ?thesis
  proof (cases "map_of ?m (norm_alias target)")
    case None
    then show ?thesis
      by (simp add: status_sid_def ca and_then_def split: prod.splits)
  next
    case (Some rec)
    have "list_all (\<lambda>p. valid_record (snd p)) ?m"
      using valid_aliases_of[OF assms, of chat] by simp
    then have "valid_record rec"
      using Some by (rule list_all_map_of)
    then obtain sid where "truthy rec" and "py_getitem rec ''steamid'' = Inr sid"
      using valid_record_steamid by blast
    then show ?thesis
      using Some by (simp add: status_sid_def ca and_then_def)
  qed
qed

lemma do_status_no_key_no_raise:
  assumes "api_key svc = []" and "valid_store (load_store w)"
  shows "fst (do_status env svc chat target w) = Inr [CannotResolve target] \<or>
         (\<exists>sid. fst (do_status env svc chat target w) = Inr [FetchFailed sid])"
proof -
  from status_sid_valid[OF assms(2), of env svc chat target]
  obtain sid w1 where "status_sid env svc chat target w = (Inr sid, w1)"
    by blast
  then show ?thesis
    using assms(1) by (simp add: do_status_def status_of_no_key)
qed

lemma do_whois_no_key_no_raise:
  assumes "api_key svc = []" and "valid_store (load_store w)"
  shows "fst (do_whois env svc chat alias0 w) = Inr [AliasNotFound (norm_alias alias0)] \<or>
         (\<exists>sid. fst (do_whois env svc chat alias0 w)
                  = Inr [WhoisNoDetail (norm_alias alias0) sid])"
proof -
  let ?m = "aliases_of (load_store w) chat"
  let ?k = "lower (lstrip_at (strip alias0))"
  have ca: "chat_aliases (load_store w) chat = Inr (JObj ?m)"
    using assms(2) by (rule chat_aliases_valid)
  show ?thesis
  proof (cases "map_of ?m ?k")
    case None
    then show ?thesis
      by (simp add: do_whois_def Let_def ca and_then_def norm_alias_def)
  next
    case (Some rec)
    have "list_all (\<lambda>p. valid_record (snd p)) ?m"
      using valid_aliases_of[OF assms(2), of chat] by simp
    then have "valid_record rec"
      using Some by (rule list_all_map_of)
    then obtain sid where "truthy rec" and "py_getitem rec ''steamid'' = Inr sid"
      using valid_record_steamid by blast
    then show ?thesis
      using Some assms(1)
      by (simp add: do_whois_def Let_def ca and_then_def norm_alias_def get_summary_no_key)
  qed
qed

end
